theory Spec2Isabelle
  imports Main "HOL-Library.Word"
begin

unbundle bit_operations_syntax

section \<open>Go library functions used by the secret codec\<close>

text \<open>
  A Go \<open>string\<close> and a Go \<open>[]byte\<close> are both sequences of bytes, and the conversions
  \<open>[]byte(s)\<close> and \<open>string(b)\<close> keep the bytes as they are. Both are modelled as
  \<open>string\<close> (a list of 8-bit characters); \<open>len\<close> is \<open>length\<close>.
\<close>

text \<open>
  \<open>encoding/base64\<close>, \<open>URLEncoding\<close>: the URL-safe alphabet, padding character \<open>=\<close>,
  not strict. \<open>decodeMap\<close> gives the 6-bit value of an alphabet character; Go's table
  holds \<open>0xff\<close> for every other byte, which is \<open>None\<close> here.
\<close>

definition encodeURL :: string where
  "encodeURL = ''ABCDEFGHIJKLMNOPQRSTUVWXYZabcdefghijklmnopqrstuvwxyz0123456789-_''"

fun index_of :: "'a \<Rightarrow> 'a list \<Rightarrow> nat option" where
  "index_of c [] = None"
| "index_of c (x # xs) =
     (if c = x then Some 0 else map_option Suc (index_of c xs))"

definition decodeMap :: "char \<Rightarrow> 8 word option" where
  "decodeMap c = map_option of_nat (index_of c encodeURL)"

definition is_newline :: "char \<Rightarrow> bool" where
  "is_newline c \<longleftrightarrow> c = CHR 0x0A \<or> c = CHR 0x0D"

definition padChar :: char where
  "padChar = CHR ''=''"

text \<open>
  The end of \<open>decodeQuantum\<close>: the \<open>dlen\<close> collected 6-bit values (the missing ones are 0)
  are packed into 24 bits, \<open>val = dbuf[0]<<18 | dbuf[1]<<12 | dbuf[2]<<6 | dbuf[3]\<close>, and
  the first \<open>dlen - 1\<close> of the bytes \<open>byte(val>>16)\<close>, \<open>byte(val>>8)\<close>, \<open>byte(val)\<close>
  are written (\<open>ucast\<close> to 8 bits keeps the low 8 bits, as the conversion to \<open>byte\<close>
  does).
\<close>

definition byte_char :: "8 word \<Rightarrow> char" where
  "byte_char b = char_of (uint b)"

definition quantum_bytes :: "8 word list \<Rightarrow> string" where
  "quantum_bytes dbuf =
     (let d = dbuf @ replicate (4 - length dbuf) 0;
          val = push_bit 18 (ucast (d ! 0)) OR push_bit 12 (ucast (d ! 1)) OR
                push_bit 6 (ucast (d ! 2)) OR ucast (d ! 3) :: 32 word
      in take (length dbuf - 1)
           (map byte_char [ucast (drop_bit 16 val), ucast (drop_bit 8 val), ucast val]))"

text \<open>
  \<open>decodeQuantum\<close> reads one group of up to four alphabet characters from the rest of the
  input, skipping \<open>\r\<close> and \<open>\n\<close>. \<open>dbuf\<close> holds the values read so far (\<open>j\<close> is its
  length). The result is the decoded bytes and the input left, or \<open>None\<close> for a
  \<open>CorruptInputError\<close>. Because the encoding has a padding character, input that ends
  inside a group is corrupt; padding is accepted only after two or three values, must be
  complete, and must end the input (newlines apart).
\<close>

fun decodeQuantum :: "8 word list \<Rightarrow> string \<Rightarrow> (string \<times> string) option" where
  "decodeQuantum dbuf [] = (if dbuf = [] then Some ([], []) else None)"
| "decodeQuantum dbuf (c # cs) =
     (case decodeMap c of
        Some out \<Rightarrow>
          (if length dbuf = 3 then Some (quantum_bytes (dbuf @ [out]), cs)
           else decodeQuantum (dbuf @ [out]) cs)
      | None \<Rightarrow>
          if is_newline c then decodeQuantum dbuf cs
          else if c \<noteq> padChar then None
          else if length dbuf < 2 then None
          else if length dbuf = 2 then
            (case dropWhile is_newline cs of
               [] \<Rightarrow> None
             | d # ds \<Rightarrow>
                 if d \<noteq> padChar then None
                 else if dropWhile is_newline ds \<noteq> [] then None
                 else Some (quantum_bytes dbuf, []))
          else if dropWhile is_newline cs \<noteq> [] then None
          else Some (quantum_bytes dbuf, []))"

lemma decodeQuantum_rest_length:
  "decodeQuantum dbuf src = Some (b, rest) \<Longrightarrow> src \<noteq> [] \<Longrightarrow> length rest < length src"
proof (induction dbuf src rule: decodeQuantum.induct)
  case (1 dbuf)
  then show ?case by simp
next
  case (2 dbuf c cs)
  show ?case
  proof (cases "decodeMap c")
    case (Some out)
    show ?thesis
    proof (cases "length dbuf = 3")
      case True
      with Some "2.prems" show ?thesis by auto
    next
      case False
      with Some "2.prems" have dq: "decodeQuantum (dbuf @ [out]) cs = Some (b, rest)"
        by simp
      show ?thesis
      proof (cases cs)
        case Nil
        with dq show ?thesis by (simp split: if_splits)
      next
        case (Cons d ds)
        with "2.IH"(2) [OF Some False dq] show ?thesis by simp
      qed
    qed
  next
    case None
    show ?thesis
    proof (cases "is_newline c")
      case True
      with None "2.prems" have dq: "decodeQuantum dbuf cs = Some (b, rest)"
        by simp
      show ?thesis
      proof (cases cs)
        case Nil
        with dq show ?thesis by (simp split: if_splits)
      next
        case (Cons d ds)
        with "2.IH"(1) [OF None True dq] show ?thesis by simp
      qed
    next
      case False
      with None "2.prems" show ?thesis
        by (auto split: if_splits list.splits)
    qed
  qed
qed

text \<open>
  \<open>Decode\<close> calls \<open>decodeQuantum\<close> until the input is used up or an error is met (its
  fast paths decode 8 or 4 alphabet characters at once and give the same bytes).
  \<open>DecodeString\<close> returns the bytes with a \<open>nil\<close> error (\<open>Some\<close>), or an error (\<open>None\<close>;
  the code under verification reads the bytes only when the error is \<open>nil\<close>).
\<close>

function Decode :: "string \<Rightarrow> string option" where
  "Decode src =
     (if src = [] then Some []
      else case decodeQuantum [] src of
             None \<Rightarrow> None
           | Some (b, rest) \<Rightarrow> map_option ((@) b) (Decode rest))"
  by pat_completeness auto
termination
proof (relation "measure length")
  show "wf (measure length)" by simp
next
  fix src :: string and x2 :: "string \<times> string" and b rest
  assume "src \<noteq> []" "decodeQuantum [] src = Some x2" "(b, rest) = x2"
  then have "length rest < length src"
    using decodeQuantum_rest_length [of "[]" src b rest] by simp
  then show "(rest, src) \<in> measure length" by simp
qed

declare Decode.simps [simp del]

definition DecodeString :: "string \<Rightarrow> string option" where
  "DecodeString s = Decode s"

section \<open>The secret codec\<close>

text \<open>\<open>addPadding\<close>: for base64 which has had \<open>=\<close> padding trimmed off.\<close>

definition addPadding :: "string \<Rightarrow> string" where
  "addPadding secret =
     (if length secret mod 4 = 2 then secret @ ''==''
      else if length secret mod 4 = 3 then secret @ ''=''
      else secret)"

text \<open>
  \<open>secretBytes\<close> attempts to base64 decode the secret; if that fails it treats the
  secret as binary.
\<close>

definition secretBytes :: "string \<Rightarrow> string" where
  "secretBytes secret =
     (case DecodeString (addPadding secret) of
        Some b \<Rightarrow>
          if length b = 16 \<or> length b = 24 \<or> length b = 32 then b else secret
      | None \<Rightarrow> secret)"


section \<open>Other library functions\<close>

text \<open>
  \<open>strings.Split(s, sep)\<close> for a separator of one byte: the pieces of \<open>s\<close> between the
  occurrences of \<open>sep\<close>, all of them (\<open>genSplit\<close> cuts at \<open>Index(s, sep)\<close> until no
  separator is left).
\<close>

function Split :: "string \<Rightarrow> char \<Rightarrow> string list" where
  "Split s sep =
     (if sep \<in> set s
      then takeWhile (\<lambda>c. c \<noteq> sep) s # Split (tl (dropWhile (\<lambda>c. c \<noteq> sep) s)) sep
      else [s])"
  by pat_completeness auto
termination
proof (relation "measure (\<lambda>(s, sep). length s)")
  show "wf (measure (\<lambda>(s, sep). length s))" by simp
next
  fix s :: string and sep :: char
  assume "sep \<in> set s"
  then have "dropWhile (\<lambda>c. c \<noteq> sep) s \<noteq> []" by simp
  then have "length (tl (dropWhile (\<lambda>c. c \<noteq> sep) s)) < length (dropWhile (\<lambda>c. c \<noteq> sep) s)"
    by (cases "dropWhile (\<lambda>c. c \<noteq> sep) s") simp_all
  also have "\<dots> \<le> length s" by (rule length_dropWhile_le)
  finally show "((tl (dropWhile (\<lambda>c. c \<noteq> sep) s), sep), (s, sep))
      \<in> measure (\<lambda>(s, sep). length s)" by simp
qed

declare Split.simps [simp del]

text \<open>\<open>strings.Join(a, sep)\<close>.\<close>

fun Join :: "string list \<Rightarrow> string \<Rightarrow> string" where
  "Join [] sep = []"
| "Join [x] sep = x"
| "Join (x # y # ys) sep = x @ sep @ Join (y # ys) sep"

text \<open>The verb \<open>%d\<close> of \<open>fmt.Sprintf\<close> on an integer: a sign and decimal digits.\<close>

function fmt_d :: "int \<Rightarrow> string" where
  "fmt_d n =
     (if n < 0 then ''-'' @ fmt_d (- n)
      else if n < 10 then [char_of (48 + n)]
      else fmt_d (n div 10) @ [char_of (48 + n mod 10)])"
  by pat_completeness auto
termination
  by (relation "measure (\<lambda>n. if n < 0 then nat (- n) + 1 else nat n)") auto

declare fmt_d.simps [simp del]

section \<open>Data\<close>

text \<open>\<open>time.Duration\<close> is an \<open>int64\<close>; comparisons read it signed (\<open>sint\<close>).\<close>

type_synonym Duration = "64 word"

text \<open>\<open>net/url\<close>: \<open>Userinfo\<close> and \<open>URL\<close>.\<close>

record Userinfo =
  username :: string
  password :: string
  passwordSet :: bool

record URL =
  Scheme :: string
  Opaque :: string
  User :: "Userinfo option"
  Host :: string
  Path :: string
  RawPath :: string
  ForceQuery :: bool
  RawQuery :: string
  Fragment :: string

text \<open>
  A compiled \<open>regexp.Regexp\<close> is known by the expression it was compiled from, an open
  \<open>os.File\<close> by its name. \<open>crypto.Hash\<close> lists the hash functions of Go's \<open>crypto\<close>
  package.
\<close>

datatype Regexp = Regexp (expr: string)

datatype File = File (file_name: string)

datatype crypto_Hash =
  MD4 | MD5 | SHA1 | SHA224 | SHA256 | SHA384 | SHA512 | MD5SHA1 | RIPEMD160
  | SHA3_224 | SHA3_256 | SHA3_384 | SHA3_512 | SHA512_224 | SHA512_256

record SignatureData =
  hash :: crypto_Hash
  key :: string

text \<open>
  The \<open>providers\<close> package is not part of the two source files. Of
  \<open>providers.ProviderData\<close> the record keeps the fields that \<open>parseProviderInfo\<close> writes
  (prefixed with \<open>pd_\<close>: the options have fields of the same names). A provider is known
  by its concrete type, by its \<open>ProviderData\<close> and by the configuration calls made on it,
  in order; what those calls do inside the package is not modelled.
\<close>

record ProviderData =
  pd_Scope :: string
  pd_ClientID :: string
  pd_ClientSecret :: string
  pd_Prompt :: string
  pd_ApprovalPrompt :: string
  pd_LoginURL :: "URL option"
  pd_RedeemURL :: "URL option"
  pd_ProfileURL :: "URL option"
  pd_ValidateURL :: "URL option"
  pd_ProtectedResource :: "URL option"

datatype ProviderType =
  AzureProvider | BitbucketProvider | GitHubProvider | GitLabProvider
  | GoogleProvider | OIDCProvider | OtherProvider

datatype ProviderCall =
  Configure string
  | SetTeam string
  | SetOrgTeam string "string list"
  | SetGroups "string list"
  | SetGroupRestriction "string list" string File
  | SetVerifier string string
  | SetIssuerURL string

record Provider =
  ptype :: ProviderType
  pdata :: ProviderData
  calls :: "ProviderCall list"

definition call :: "ProviderCall \<Rightarrow> Provider \<Rightarrow> Provider" where
  "call c p = p\<lparr>calls := calls p @ [c]\<rparr>"


text \<open>
  \<open>Options\<close>: every field of the struct, in its order; the last five are the internal
  values that are set by validation (a \<open>nil\<close> pointer or interface is \<open>None\<close>, a \<open>nil\<close>
  slice is \<open>[]\<close>).
\<close>

record Options =
  ProxyPrefix :: string
  ProxyWebSockets :: bool
  HttpAddress :: string
  HttpsAddress :: string
  ForceHTTPS :: bool
  RedirectURL :: string
  ClientID :: string
  ClientSecret :: string
  TLSCertFile :: string
  TLSKeyFile :: string
  AuthenticatedEmailsFile :: string
  AzureTenant :: string
  BitbucketTeam :: string
  EmailDomains :: "string list"
  WhitelistDomains :: "string list"
  GitHubOrg :: string
  GitHubTeams :: "string list"
  GitLabGroups :: "string list"
  GoogleGroups :: "string list"
  GoogleAdminEmail :: string
  GoogleServiceAccountJSON :: string
  HtpasswdFile :: string
  DisplayHtpasswdForm :: bool
  CustomTemplatesDir :: string
  Banner :: string
  Footer :: string
  CookieName :: string
  CookieSecret :: string
  CookieDomain :: string
  CookiePath :: string
  CookieExpire :: Duration
  CookieRefresh :: Duration
  CookieSecure :: bool
  CookieHttpOnly :: bool
  CookieSameSite :: string
  Upstreams :: "string list"
  SkipAuthRegex :: "string list"
  SkipAuthStripHeaders :: bool
  PassBasicAuth :: bool
  BasicAuthPassword :: string
  PassAccessToken :: bool
  PassHostHeader :: bool
  SkipProviderButton :: bool
  PassUserHeaders :: bool
  SSLInsecureSkipVerify :: bool
  SetXAuthRequest :: bool
  SkipAuthPreflight :: bool
  FlushInterval :: Duration
  Provider :: string
  OIDCIssuerURL :: string
  OIDCJwksURL :: string
  SkipOIDCDiscovery :: bool
  LoginURL :: string
  RedeemURL :: string
  ProfileURL :: string
  ProtectedResource :: string
  ValidateURL :: string
  Scope :: string
  Prompt :: string
  ApprovalPrompt :: string
  RequestLogging :: bool
  RequestLoggingFormat :: string
  RealClientIPHeader :: string
  SignatureKey :: string
  redirectURL :: "URL option"
  proxyURLs :: "URL list"
  CompiledRegex :: "Regexp list"
  provider :: "Provider option"
  signatureData :: "SignatureData option"

text \<open>
  \<open>NewOptions\<close>: the fields it does not name hold Go's zero values. The constant
  \<open>defaultRequestLoggingFormat\<close> is declared outside the two source files and is a
  parameter here. \<open>time.Hour\<close> is 3600000000000 nanoseconds.
\<close>

definition NewOptions :: "string \<Rightarrow> Options" where
  "NewOptions defaultRequestLoggingFormat =
     \<lparr>ProxyPrefix = ''/oauth2'', ProxyWebSockets = True,
      HttpAddress = ''127.0.0.1:4180'', HttpsAddress = '':443'', ForceHTTPS = False,
      RedirectURL = '''', ClientID = '''', ClientSecret = '''', TLSCertFile = '''',
      TLSKeyFile = '''', AuthenticatedEmailsFile = '''', AzureTenant = '''',
      BitbucketTeam = '''', EmailDomains = [], WhitelistDomains = [], GitHubOrg = '''',
      GitHubTeams = [], GitLabGroups = [], GoogleGroups = [], GoogleAdminEmail = '''',
      GoogleServiceAccountJSON = '''', HtpasswdFile = '''', DisplayHtpasswdForm = True,
      CustomTemplatesDir = '''', Banner = '''', Footer = '''',
      CookieName = ''_oauth2_proxy'', CookieSecret = '''', CookieDomain = '''',
      CookiePath = '''', CookieExpire = 168 * 3600000000000, CookieRefresh = 0,
      CookieSecure = True, CookieHttpOnly = True, CookieSameSite = '''', Upstreams = [],
      SkipAuthRegex = [], SkipAuthStripHeaders = True, PassBasicAuth = True,
      BasicAuthPassword = '''', PassAccessToken = False, PassHostHeader = True,
      SkipProviderButton = False, PassUserHeaders = True, SSLInsecureSkipVerify = False,
      SetXAuthRequest = False, SkipAuthPreflight = False, FlushInterval = 0,
      Provider = '''', OIDCIssuerURL = '''', OIDCJwksURL = '''', SkipOIDCDiscovery = False,
      LoginURL = '''', RedeemURL = '''', ProfileURL = '''', ProtectedResource = '''',
      ValidateURL = '''', Scope = '''', Prompt = '''', ApprovalPrompt = ''force'',
      RequestLogging = True, RequestLoggingFormat = defaultRequestLoggingFormat,
      RealClientIPHeader = ''X-Real-IP'', SignatureKey = '''', redirectURL = None,
      proxyURLs = [], CompiledRegex = [], provider = None, signatureData = None\<rparr>"

section \<open>\<open>url.Parse\<close> of Go's \<open>net/url\<close>\<close>

text \<open>
  Validation is stated for any \<open>url.Parse\<close> (a field of \<open>Env\<close> below). This section
  is a model of the library function itself, after the source of \<open>net/url\<close> (Go 1.13),
  for the statements that are about particular URLs. Errors are kept as values;
  \<open>Error()\<close> of the \<open>*url.Error\<close> that \<open>Parse\<close> returns is not modelled.
\<close>

datatype url_error =
  InvalidControlCharacter
  | MissingProtocolScheme
  | FirstPathSegmentColon
  | MissingBracketInHost
  | InvalidPort string
  | InvalidUserinfo
  | EscapeError string
  | InvalidHostError string

datatype encoding =
  encodePath | encodePathSegment | encodeHost | encodeZone | encodeUserPassword
  | encodeQueryComponent | encodeFragment

definition byte_in :: "char \<Rightarrow> char \<Rightarrow> char \<Rightarrow> bool" where
  "byte_in lo hi c \<longleftrightarrow> (of_char lo :: nat) \<le> of_char c \<and> (of_char c :: nat) \<le> of_char hi"

definition is_alpha :: "char \<Rightarrow> bool" where
  "is_alpha c \<longleftrightarrow> byte_in CHR ''a'' CHR ''z'' c \<or> byte_in CHR ''A'' CHR ''Z'' c"

definition is_digit :: "char \<Rightarrow> bool" where
  "is_digit c \<longleftrightarrow> byte_in CHR ''0'' CHR ''9'' c"

definition ishex :: "char \<Rightarrow> bool" where
  "ishex c \<longleftrightarrow> is_digit c \<or> byte_in CHR ''a'' CHR ''f'' c \<or> byte_in CHR ''A'' CHR ''F'' c"

definition unhex :: "char \<Rightarrow> nat" where
  "unhex c =
     (if is_digit c then of_char c - of_char CHR ''0''
      else if byte_in CHR ''a'' CHR ''f'' c then of_char c - of_char CHR ''a'' + 10
      else if byte_in CHR ''A'' CHR ''F'' c then of_char c - of_char CHR ''A'' + 10
      else 0)"

text \<open>\<open>strings.ToLower\<close> on the bytes of a scheme, which are ASCII.\<close>

definition ToLower :: "string \<Rightarrow> string" where
  "ToLower s = map (\<lambda>c. if byte_in CHR ''A'' CHR ''Z'' c then char_of (of_char c + (32::nat)) else c) s"

text \<open>
  \<open>split(s, c, cutc)\<close> cuts \<open>s\<close> at the first \<open>c\<close>; without one the second part is empty.
\<close>

definition split_cut :: "string \<Rightarrow> char \<Rightarrow> string \<times> string" where
  "split_cut s c = (takeWhile (\<lambda>x. x \<noteq> c) s, drop 1 (dropWhile (\<lambda>x. x \<noteq> c) s))"

definition split_keep :: "string \<Rightarrow> char \<Rightarrow> string \<times> string" where
  "split_keep s c = (takeWhile (\<lambda>x. x \<noteq> c) s, dropWhile (\<lambda>x. x \<noteq> c) s)"

definition stringContainsCTLByte :: "string \<Rightarrow> bool" where
  "stringContainsCTLByte s = list_ex (\<lambda>b. (of_char b :: nat) < 32 \<or> (of_char b :: nat) = 127) s"

text \<open>\<open>getscheme\<close>: the loop at index \<open>i\<close>, on the bytes from \<open>i\<close> on.\<close>

fun getscheme_loop :: "string \<Rightarrow> nat \<Rightarrow> string \<Rightarrow> url_error + (string \<times> string)" where
  "getscheme_loop rawurl i [] = Inr ('''', rawurl)"
| "getscheme_loop rawurl i (c # cs) =
     (if is_alpha c then getscheme_loop rawurl (Suc i) cs
      else if is_digit c \<or> c = CHR ''+'' \<or> c = CHR ''-'' \<or> c = CHR ''.''
      then (if i = 0 then Inr ('''', rawurl) else getscheme_loop rawurl (Suc i) cs)
      else if c = CHR '':''
      then (if i = 0 then Inl MissingProtocolScheme
            else Inr (take i rawurl, drop (Suc i) rawurl))
      else Inr ('''', rawurl))"

definition getscheme :: "string \<Rightarrow> url_error + (string \<times> string)" where
  "getscheme rawurl = getscheme_loop rawurl 0 rawurl"

definition shouldEscape :: "char \<Rightarrow> encoding \<Rightarrow> bool" where
  "shouldEscape c mode =
     (if is_alpha c \<or> is_digit c then False
      else if (mode = encodeHost \<or> mode = encodeZone) \<and>
              c \<in> set (''!$&()*+,;=:[]<>'' @ [CHR 0x27, CHR 0x22]) then False
      else if c \<in> set ''-_.~'' then False
      else if c \<in> set ''$&+,/:;=?@'' \<and> mode = encodePath then c = CHR ''?''
      else if c \<in> set ''$&+,/:;=?@'' \<and> mode = encodePathSegment
      then c = CHR ''/'' \<or> c = CHR '';'' \<or> c = CHR '','' \<or> c = CHR ''?''
      else if c \<in> set ''$&+,/:;=?@'' \<and> mode = encodeUserPassword
      then c = CHR ''@'' \<or> c = CHR ''/'' \<or> c = CHR ''?'' \<or> c = CHR '':''
      else if c \<in> set ''$&+,/:;=?@'' \<and> mode = encodeQueryComponent then True
      else if c \<in> set ''$&+,/:;=?@'' \<and> mode = encodeFragment then False
      else if mode = encodeFragment \<and> c \<in> set ''!()*'' then False
      else True)"

text \<open>
  \<open>unescape\<close>: one pass that checks the escapes and builds the result (the source
  checks first and builds in a second pass; an error of the check is the result).
\<close>

fun unescape :: "string \<Rightarrow> encoding \<Rightarrow> url_error + string" where
  "unescape [] mode = Inr []"
| "unescape (c # cs) mode =
     (if c = CHR ''%'' then
        (case cs of
           h1 # h2 # rest \<Rightarrow>
             if \<not> ishex h1 \<or> \<not> ishex h2 then Inl (EscapeError (take 3 (c # cs)))
             else if mode = encodeHost \<and> unhex h1 < 8 \<and> [c, h1, h2] \<noteq> ''%25''
             then Inl (EscapeError [c, h1, h2])
             else if mode = encodeZone \<and> [c, h1, h2] \<noteq> ''%25''
                     \<and> char_of (unhex h1 * 16 + unhex h2) \<noteq> CHR '' ''
                     \<and> shouldEscape (char_of (unhex h1 * 16 + unhex h2)) encodeHost
             then Inl (EscapeError [c, h1, h2])
             else (case unescape rest mode of
                     Inl e \<Rightarrow> Inl e
                   | Inr t \<Rightarrow> Inr (char_of (unhex h1 * 16 + unhex h2) # t))
         | _ \<Rightarrow> Inl (EscapeError (take 3 (c # cs))))
      else if c = CHR ''+'' then
        (case unescape cs mode of
           Inl e \<Rightarrow> Inl e
         | Inr t \<Rightarrow> Inr ((if mode = encodeQueryComponent then CHR '' '' else CHR ''+'') # t))
      else if (mode = encodeHost \<or> mode = encodeZone) \<and> (of_char c :: nat) < 128
              \<and> shouldEscape c encodeHost
      then Inl (InvalidHostError [c])
      else (case unescape cs mode of Inl e \<Rightarrow> Inl e | Inr t \<Rightarrow> Inr (c # t)))"

definition upperhex :: string where
  "upperhex = ''0123456789ABCDEF''"

definition escape :: "string \<Rightarrow> encoding \<Rightarrow> string" where
  "escape s mode =
     concat (map (\<lambda>c. if shouldEscape c mode
                       then (if c = CHR '' '' \<and> mode = encodeQueryComponent then ''+''
                             else [CHR ''%'', upperhex ! (of_char c div 16),
                                   upperhex ! (of_char c mod 16)])
                       else [c]) s)"

definition validOptionalPort :: "string \<Rightarrow> bool" where
  "validOptionalPort port =
     (case port of
        [] \<Rightarrow> True
      | c # ds \<Rightarrow> c = CHR '':'' \<and> list_all is_digit ds)"

definition validUserinfo :: "string \<Rightarrow> bool" where
  "validUserinfo s =
     list_all (\<lambda>r. is_alpha r \<or> is_digit r
                    \<or> r \<in> set (''-._:~!$&()*+,;=%@'' @ [CHR 0x27])) s"

text \<open>\<open>strings.LastIndex\<close> and \<open>strings.Index\<close> for one byte, \<open>strings.Index\<close> for a string.\<close>

definition LastIndex :: "string \<Rightarrow> char \<Rightarrow> nat option" where
  "LastIndex s c =
     (if c \<in> set s then Some (length s - 1 - length (takeWhile (\<lambda>x. x \<noteq> c) (rev s)))
      else None)"

definition Index :: "string \<Rightarrow> char \<Rightarrow> nat option" where
  "Index s c = (if c \<in> set s then Some (length (takeWhile (\<lambda>x. x \<noteq> c) s)) else None)"

fun IndexString :: "string \<Rightarrow> string \<Rightarrow> nat option" where
  "IndexString [] sub = (if sub = [] then Some 0 else None)"
| "IndexString (c # cs) sub =
     (if take (length sub) (c # cs) = sub then Some 0
      else map_option Suc (IndexString cs sub))"

definition parseHost :: "string \<Rightarrow> url_error + string" where
  "parseHost host =
     (if take 1 host = ''[''
      then
        (case LastIndex host CHR '']'' of
           None \<Rightarrow> Inl MissingBracketInHost
         | Some i \<Rightarrow>
             let colonPort = drop (Suc i) host
             in if \<not> validOptionalPort colonPort then Inl (InvalidPort colonPort)
                else
                  (case IndexString (take i host) ''%25'' of
                     Some zone \<Rightarrow>
                       (case unescape (take zone host) encodeHost of
                          Inl e \<Rightarrow> Inl e
                        | Inr host1 \<Rightarrow>
                            (case unescape (drop zone (take i host)) encodeZone of
                               Inl e \<Rightarrow> Inl e
                             | Inr host2 \<Rightarrow>
                                 (case unescape (drop i host) encodeHost of
                                    Inl e \<Rightarrow> Inl e
                                  | Inr host3 \<Rightarrow> Inr (host1 @ host2 @ host3))))
                   | None \<Rightarrow> unescape host encodeHost))
      else
        (case LastIndex host CHR '':'' of
           Some i \<Rightarrow>
             let colonPort = drop i host
             in if \<not> validOptionalPort colonPort then Inl (InvalidPort colonPort)
                else unescape host encodeHost
         | None \<Rightarrow> unescape host encodeHost))"

definition parseAuthority :: "string \<Rightarrow> url_error + (Userinfo option \<times> string)" where
  "parseAuthority authority =
     (case LastIndex authority CHR ''@'' of
        None \<Rightarrow>
          (case parseHost authority of
             Inl e \<Rightarrow> Inl e
           | Inr host \<Rightarrow> Inr (None, host))
      | Some i \<Rightarrow>
          (case parseHost (drop (Suc i) authority) of
             Inl e \<Rightarrow> Inl e
           | Inr host \<Rightarrow>
               let userinfo = take i authority
               in if \<not> validUserinfo userinfo then Inl InvalidUserinfo
                  else if CHR '':'' \<notin> set userinfo
                  then
                    (case unescape userinfo encodeUserPassword of
                       Inl e \<Rightarrow> Inl e
                     | Inr name \<Rightarrow>
                         Inr (Some \<lparr>username = name, password = '''', passwordSet = False\<rparr>,
                              host))
                  else
                    (let (name, pass) = split_cut userinfo CHR '':''
                     in case unescape name encodeUserPassword of
                          Inl e \<Rightarrow> Inl e
                        | Inr name \<Rightarrow>
                            (case unescape pass encodeUserPassword of
                               Inl e \<Rightarrow> Inl e
                             | Inr pass \<Rightarrow>
                                 Inr (Some \<lparr>username = name, password = pass,
                                            passwordSet = True\<rparr>, host)))))"

definition setPath :: "URL \<Rightarrow> string \<Rightarrow> url_error + URL" where
  "setPath u p =
     (case unescape p encodePath of
        Inl e \<Rightarrow> Inl e
      | Inr path \<Rightarrow>
          Inr (u\<lparr>Path := path, RawPath := (if p = escape path encodePath then '''' else p)\<rparr>))"

definition new_URL :: URL where
  "new_URL = \<lparr>Scheme = '''', Opaque = '''', User = None, Host = '''', Path = '''',
               RawPath = '''', ForceQuery = False, RawQuery = '''', Fragment = ''''\<rparr>"

text \<open>\<open>parse(rawurl, false)\<close>: the branches for \<open>viaRequest\<close> are left out.\<close>

definition parse :: "string \<Rightarrow> url_error + URL" where
  "parse rawurl =
     (if stringContainsCTLByte rawurl then Inl InvalidControlCharacter
      else if rawurl = ''*'' then Inr (new_URL\<lparr>Path := ''*''\<rparr>)
      else
        (case getscheme rawurl of
           Inl e \<Rightarrow> Inl e
         | Inr (scheme, rest) \<Rightarrow>
             let url = new_URL\<lparr>Scheme := ToLower scheme\<rparr>;
                 (rest, url) =
                   (if rest \<noteq> [] \<and> last rest = CHR ''?'' \<and> count_list rest CHR ''?'' = 1
                    then (butlast rest, url\<lparr>ForceQuery := True\<rparr>)
                    else (let (r, q) = split_cut rest CHR ''?'' in (r, url\<lparr>RawQuery := q\<rparr>)))
             in if take 1 rest \<noteq> ''/'' \<and> Scheme url \<noteq> ''''
                then Inr (url\<lparr>Opaque := rest\<rparr>)
                else if take 1 rest \<noteq> ''/'' \<and>
                        (case Index rest CHR '':'' of
                           None \<Rightarrow> False
                         | Some colon \<Rightarrow>
                             (case Index rest CHR ''/'' of
                                None \<Rightarrow> True
                              | Some slash \<Rightarrow> colon < slash))
                then Inl FirstPathSegmentColon
                else if (Scheme url \<noteq> '''' \<or> take 3 rest \<noteq> ''///'') \<and> take 2 rest = ''//''
                then
                  (let (authority, rest) = split_keep (drop 2 rest) CHR ''/''
                   in case parseAuthority authority of
                        Inl e \<Rightarrow> Inl e
                      | Inr (user, host) \<Rightarrow> setPath (url\<lparr>User := user, Host := host\<rparr>) rest)
                else setPath url rest))"

text \<open>
  \<open>Parse\<close>. An error comes with the string that the \<open>*url.Error\<close> names: the URL
  without its fragment for an error of \<open>parse\<close>, the whole URL for an error in the
  fragment.
\<close>

definition Parse :: "string \<Rightarrow> (string \<times> url_error) + URL" where
  "Parse rawurl =
     (let (u, frag) = split_cut rawurl CHR ''#''
      in case parse u of
           Inl err \<Rightarrow> Inl (u, err)
         | Inr url \<Rightarrow>
             if frag = '''' then Inr url
             else (case unescape frag encodeFragment of
                     Inl err \<Rightarrow> Inl (rawurl, err)
                   | Inr f \<Rightarrow> Inr (url\<lparr>Fragment := f\<rparr>)))"

section \<open>What validation needs from outside\<close>

text \<open>
  The functions of the Go library and of other packages that validation calls, as
  parameters. An \<open>error\<close> result is the text of the error (\<open>Inl\<close>).
  \<^item> \<open>DefaultTransport_ok\<close>: the type assertion \<open>http.DefaultTransport.(*http.Transport)\<close>
    succeeds;
  \<^item> \<open>url_Parse\<close>, \<open>regexp_Compile\<close>, \<open>os_Open\<close>: \<open>url.Parse\<close>, \<open>regexp.Compile\<close>, \<open>os.Open\<close>;
  \<^item> \<open>providers_New\<close>: the concrete type of the provider that \<open>providers.New\<close> builds
    for a provider name;
  \<^item> \<open>SetIssuerURL_err\<close>: the error that \<open>SetIssuerURL\<close> of the OIDC provider returns
    (\<open>None\<close> for \<open>nil\<close>);
  \<^item> \<open>DigestNameToCryptoHash\<close>: \<open>hmacauth.DigestNameToCryptoHash\<close>;
  \<^item> \<open>Cookie_String\<close>: \<open>(&http.Cookie{Name: name}).String()\<close>;
  \<^item> \<open>fmt_q\<close>: the verb \<open>%q\<close> of \<open>fmt.Sprintf\<close> on a string;
  \<^item> \<open>Duration_String\<close>: \<open>time.Duration.String\<close>.
\<close>

record Env =
  DefaultTransport_ok :: bool
  url_Parse :: "string \<Rightarrow> string + URL"
  regexp_Compile :: "string \<Rightarrow> string + Regexp"
  os_Open :: "string \<Rightarrow> string + File"
  providers_New :: "string \<Rightarrow> ProviderType"
  SetIssuerURL_err :: "string \<Rightarrow> string option"
  DigestNameToCryptoHash :: "string \<Rightarrow> string + crypto_Hash"
  Cookie_String :: "string \<Rightarrow> string"
  fmt_q :: "string \<Rightarrow> string"
  Duration_String :: "Duration \<Rightarrow> string"

text \<open>
  What validation changes outside the options: whether the default transport was given
  the TLS configuration with \<open>InsecureSkipVerify\<close>, and the names passed to \<open>os.Open\<close>,
  in order.
\<close>

record World =
  insecure_tls :: bool
  opened :: "string list"

section \<open>Validation\<close>

definition parseURL :: "Env \<Rightarrow> string \<Rightarrow> string \<Rightarrow> string list \<Rightarrow> URL option \<times> string list" where
  "parseURL env to_parse urltype msgs =
     (case url_Parse env to_parse of
        Inl err \<Rightarrow>
          (None, msgs @ [''error parsing '' @ urltype @ ''-url='' @ fmt_q env to_parse
                          @ '' '' @ err])
      | Inr parsed \<Rightarrow> (Some parsed, msgs))"

subsection \<open>The provider\<close>

text \<open>The Google case of the type switch in \<open>parseProviderInfo\<close>.\<close>

definition configureGoogle ::
  "Env \<Rightarrow> Options \<Rightarrow> Provider \<Rightarrow> World \<Rightarrow> string list \<Rightarrow> Provider \<times> World \<times> string list" where
  "configureGoogle env opts p w msgs =
     (let msgs =
            (if length (GoogleGroups opts) > 0 \<or> GoogleAdminEmail opts \<noteq> ''''
                \<or> GoogleServiceAccountJSON opts \<noteq> ''''
             then
               (let msgs = (if length (GoogleGroups opts) < 1
                            then msgs @ [''missing setting: google-group''] else msgs);
                    msgs = (if GoogleAdminEmail opts = ''''
                            then msgs @ [''missing setting: google-admin-email''] else msgs);
                    msgs = (if GoogleServiceAccountJSON opts = ''''
                            then msgs @ [''missing setting: google-service-account-json'']
                            else msgs)
                in msgs)
             else msgs)
      in if GoogleServiceAccountJSON opts \<noteq> ''''
         then
           (let w = w\<lparr>opened := opened w @ [GoogleServiceAccountJSON opts]\<rparr>
            in case os_Open env (GoogleServiceAccountJSON opts) of
                 Inl err \<Rightarrow>
                   (p, w, msgs @ [''invalid Google credentials file: ''
                                   @ GoogleServiceAccountJSON opts])
               | Inr file \<Rightarrow>
                   (call (SetGroupRestriction (GoogleGroups opts) (GoogleAdminEmail opts) file) p,
                    w, msgs))
         else (p, w, msgs))"

text \<open>The OIDC case of the type switch.\<close>

definition configureOIDC ::
  "Env \<Rightarrow> Options \<Rightarrow> Provider \<Rightarrow> string list \<Rightarrow> Provider \<times> string list" where
  "configureOIDC env opts p msgs =
     (let msgs = (if OIDCIssuerURL opts = ''''
                  then msgs @ [''missing-setting: oidc-issuer-url''] else msgs)
      in if SkipOIDCDiscovery opts
         then
           (let msgs = (if LoginURL opts = ''''
                        then msgs @ [''missing setting: login-url''] else msgs);
                msgs = (if RedeemURL opts = ''''
                        then msgs @ [''missing setting: redeem-url''] else msgs);
                msgs = (if OIDCJwksURL opts = ''''
                        then msgs @ [''missing setting: oidc-jwks-url''] else msgs)
            in if OIDCIssuerURL opts \<noteq> '''' \<and> OIDCJwksURL opts \<noteq> ''''
               then (call (SetVerifier (OIDCIssuerURL opts) (OIDCJwksURL opts)) p, msgs)
               else (p, msgs))
         else
           (if OIDCIssuerURL opts \<noteq> ''''
            then
              (let p = call (SetIssuerURL (OIDCIssuerURL opts)) p
               in case SetIssuerURL_err env (OIDCIssuerURL opts) of
                    Some err \<Rightarrow> (p, msgs @ [err])
                  | None \<Rightarrow> (p, msgs))
            else (p, msgs)))"

text \<open>The type switch on the provider.\<close>

definition configureProvider ::
  "Env \<Rightarrow> Options \<Rightarrow> Provider \<Rightarrow> World \<Rightarrow> string list \<Rightarrow> Provider \<times> World \<times> string list" where
  "configureProvider env opts p w msgs =
     (case ptype p of
        AzureProvider \<Rightarrow> (call (Configure (AzureTenant opts)) p, w, msgs)
      | BitbucketProvider \<Rightarrow> (call (SetTeam (BitbucketTeam opts)) p, w, msgs)
      | GitHubProvider \<Rightarrow> (call (SetOrgTeam (GitHubOrg opts) (GitHubTeams opts)) p, w, msgs)
      | GitLabProvider \<Rightarrow> (call (SetGroups (GitLabGroups opts)) p, w, msgs)
      | GoogleProvider \<Rightarrow> configureGoogle env opts p w msgs
      | OIDCProvider \<Rightarrow>
          (let (p, msgs) = configureOIDC env opts p msgs in (p, w, msgs))
      | OtherProvider \<Rightarrow> (p, w, msgs))"

text \<open>The five URLs of the provider data, parsed in the order of the source.\<close>

definition parseProviderURLs :: "Env \<Rightarrow> Options \<Rightarrow> string list \<Rightarrow> ProviderData \<times> string list" where
  "parseProviderURLs env opts msgs =
     (let (login, msgs) = parseURL env (LoginURL opts) ''login'' msgs;
          (redeem, msgs) = parseURL env (RedeemURL opts) ''redeem'' msgs;
          (profile, msgs) = parseURL env (ProfileURL opts) ''profile'' msgs;
          (validate, msgs) = parseURL env (ValidateURL opts) ''validate'' msgs;
          (resource, msgs) = parseURL env (ProtectedResource opts) ''resource'' msgs
      in (\<lparr>pd_Scope = Scope opts, pd_ClientID = ClientID opts,
           pd_ClientSecret = ClientSecret opts, pd_Prompt = Prompt opts,
           pd_ApprovalPrompt = ApprovalPrompt opts,
           pd_LoginURL = login, pd_RedeemURL = redeem, pd_ProfileURL = profile,
           pd_ValidateURL = validate, pd_ProtectedResource = resource\<rparr>, msgs))"

definition parseProviderInfo ::
  "Env \<Rightarrow> Options \<Rightarrow> World \<Rightarrow> string list \<Rightarrow> Options \<times> World \<times> string list" where
  "parseProviderInfo env opts w msgs =
     (let (p, msgs) = parseProviderURLs env opts msgs;
          prov = \<lparr>ptype = providers_New env (Provider opts), pdata = p, calls = []\<rparr>;
          (prov, w, msgs) = configureProvider env opts prov w msgs
      in (opts\<lparr>provider := Some prov\<rparr>, w, msgs))"

subsection \<open>The signature key and the cookie name\<close>

definition parseSignatureKey :: "Env \<Rightarrow> Options \<Rightarrow> string list \<Rightarrow> Options \<times> string list" where
  "parseSignatureKey env opts msgs =
     (if SignatureKey opts = '''' then (opts, msgs)
      else
        (let components = Split (SignatureKey opts) CHR '':''
         in if length components \<noteq> 2
            then (opts, msgs @ [''invalid signature hash:key spec: '' @ SignatureKey opts])
            else
              (let algorithm = components ! 0; secretKey = components ! 1
               in case DigestNameToCryptoHash env algorithm of
                    Inl err \<Rightarrow>
                      (opts, msgs @ [''unsupported signature hash algorithm: ''
                                      @ SignatureKey opts])
                  | Inr h \<Rightarrow>
                      (opts\<lparr>signatureData := Some \<lparr>hash = h, key = secretKey\<rparr>\<rparr>, msgs))))"

definition validateCookieName :: "Env \<Rightarrow> Options \<Rightarrow> string list \<Rightarrow> string list" where
  "validateCookieName env opts msgs =
     (if Cookie_String env (CookieName opts) = ''''
      then msgs @ [''invalid cookie name: '' @ fmt_q env (CookieName opts)]
      else msgs)"

subsection \<open>The checks of \<open>Validate\<close>, in its order\<close>

text \<open>Lines 148 to 156: the insecure TLS configuration.\<close>

definition insecureTLS :: "Env \<Rightarrow> Options \<Rightarrow> World \<Rightarrow> string list \<Rightarrow> World \<times> string list" where
  "insecureTLS env opts w msgs =
     (if SSLInsecureSkipVerify opts
      then
        (if DefaultTransport_ok env then (w\<lparr>insecure_tls := True\<rparr>, msgs)
         else (w, msgs @ [''error setting insecure tls config: DefaultTransport is unexpected type'']))
      else (w, msgs))"

text \<open>Lines 158 to 170: the settings that must be present.\<close>

definition requiredSettings :: "Options \<Rightarrow> string list \<Rightarrow> string list" where
  "requiredSettings opts msgs =
     (let msgs = (if CookieSecret opts = ''''
                  then msgs @ [''missing setting: cookie-secret''] else msgs);
          msgs = (if ClientID opts = ''''
                  then msgs @ [''missing setting: client-id''] else msgs);
          msgs = (if ClientSecret opts = ''''
                  then msgs @ [''missing setting: client-secret''] else msgs);
          msgs = (if AuthenticatedEmailsFile opts = '''' \<and> length (EmailDomains opts) = 0
                     \<and> HtpasswdFile opts = ''''
                  then msgs @ [''missing setting for email validation: email-domain or authenticated-emails-file required.''
                               @ [CHR 0x0A] @ ''      use email-domain=* to authorize all email addresses'']
                  else msgs)
      in msgs)"

text \<open>
  Lines 174 to 184: the loop over the upstreams, on the rest of the list, with the
  parsed URLs so far (\<open>o.proxyURLs\<close>) and the messages so far.
\<close>

fun parseUpstreams ::
  "Env \<Rightarrow> string list \<Rightarrow> URL list \<Rightarrow> string list \<Rightarrow> URL list \<times> string list" where
  "parseUpstreams env [] urls msgs = (urls, msgs)"
| "parseUpstreams env (u # us) urls msgs =
     (case url_Parse env u of
        Inl err \<Rightarrow>
          parseUpstreams env us urls (msgs @ [''error parsing upstream: '' @ err])
      | Inr upstreamURL \<Rightarrow>
          (let upstreamURL = (if Path upstreamURL = '''' then upstreamURL\<lparr>Path := ''/''\<rparr>
                              else upstreamURL)
           in parseUpstreams env us (urls @ [upstreamURL]) msgs))"

text \<open>Lines 186 to 193: the loop over the expressions that skip authentication.\<close>

fun compileRegexes ::
  "Env \<Rightarrow> string list \<Rightarrow> Regexp list \<Rightarrow> string list \<Rightarrow> Regexp list \<times> string list" where
  "compileRegexes env [] compiled msgs = (compiled, msgs)"
| "compileRegexes env (u # us) compiled msgs =
     (case regexp_Compile env u of
        Inl err \<Rightarrow>
          compileRegexes env us compiled
            (msgs @ [''error compiling regex='' @ fmt_q env u @ '' '' @ err])
      | Inr re \<Rightarrow> compileRegexes env us (compiled @ [re]) msgs)"

text \<open>
  Lines 197 to 220: the size of the cookie secret. The loop over the three sizes sets
  the flag when the length of the secret's bytes is one of them.
\<close>

definition cookieSecretSize :: "Env \<Rightarrow> Options \<Rightarrow> string list \<Rightarrow> string list" where
  "cookieSecretSize env opts msgs =
     (if PassAccessToken opts \<or> CookieRefresh opts \<noteq> 0
      then
        (let valid_cookie_secret_size =
               foldl (\<lambda>v i. if length (secretBytes (CookieSecret opts)) = i then True else v)
                 False [16, 24, 32];
             decoded = (secretBytes (CookieSecret opts) \<noteq> CookieSecret opts)
         in if valid_cookie_secret_size = False
            then
              (let suffix =
                     (if decoded
                      then '' note: cookie secret was base64 decoded from ''
                             @ fmt_q env (CookieSecret opts)
                      else '''')
               in msgs @ [''cookie_secret must be 16, 24, or 32 bytes to create an AES cipher when pass_access_token == true or cookie_refresh != 0, but is ''
                           @ fmt_d (int (length (secretBytes (CookieSecret opts)))) @ '' bytes.''
                           @ suffix])
            else msgs)
      else msgs)"

text \<open>Lines 222 to 228: refresh against expiry, compared as signed 64-bit values.\<close>

definition cookieRefresh :: "Env \<Rightarrow> Options \<Rightarrow> string list \<Rightarrow> string list" where
  "cookieRefresh env opts msgs =
     (if sint (CookieRefresh opts) \<ge> sint (CookieExpire opts)
      then msgs @ [''cookie_refresh ('' @ Duration_String env (CookieRefresh opts)
                    @ '') must be less than cookie_expire (''
                    @ Duration_String env (CookieExpire opts) @ '')'']
      else msgs)"

text \<open>Lines 230 to 234: the same-site value. \<open>CHR 0x27\<close> is the single quote.\<close>

definition cookieSameSite :: "Options \<Rightarrow> string list \<Rightarrow> string list" where
  "cookieSameSite opts msgs =
     (if CookieSameSite opts = '''' \<or> CookieSameSite opts = ''none''
         \<or> CookieSameSite opts = ''lax'' \<or> CookieSameSite opts = ''strict''
      then msgs
      else msgs @ [''cookie_samesite ('' @ CookieSameSite opts @ '') must be one of [''
                    @ [CHR 0x27, CHR 0x27] @ '', '' @ [CHR 0x27] @ ''lax'' @ [CHR 0x27]
                    @ '', '' @ [CHR 0x27] @ ''strict'' @ [CHR 0x27]
                    @ '', '' @ [CHR 0x27] @ ''none'' @ [CHR 0x27] @ '']''])"

text \<open>Lines 239 to 254: the header that carries the client's address.\<close>

definition realClientIPHeader :: "Env \<Rightarrow> Options \<Rightarrow> string list \<Rightarrow> string list" where
  "realClientIPHeader env opts msgs =
     (if RealClientIPHeader opts \<noteq> ''''
      then
        (let valid =
               foldl (\<lambda>v s. if RealClientIPHeader opts = s then True else v) False
                 [''X-Real-IP'', ''X-Forwarded-For'', ''X-ProxyUser-IP'']
         in if \<not> valid
            then msgs @ [''unsupported real-client-ip-header ''
                          @ fmt_q env (RealClientIPHeader opts)]
            else msgs)
      else msgs)"

text \<open>
  \<open>collect\<close> is the body of \<open>Validate\<close> down to line 254: it runs the checks in their
  order on the message list, which starts empty, and gives the messages, the options
  with their internal values set and the world. \<open>Validate\<close> turns the messages into
  the error (\<open>None\<close> is \<open>nil\<close>).
\<close>

definition collect :: "Env \<Rightarrow> Options \<Rightarrow> World \<Rightarrow> string list \<times> Options \<times> World" where
  "collect env opts w =
     (let msgs = [];
          (w, msgs) = insecureTLS env opts w msgs;
          msgs = requiredSettings opts msgs;
          (redirect, msgs) = parseURL env (RedirectURL opts) ''redirect'' msgs;
          opts = opts\<lparr>redirectURL := redirect\<rparr>;
          (urls, msgs) = parseUpstreams env (Upstreams opts) (proxyURLs opts) msgs;
          opts = opts\<lparr>proxyURLs := urls\<rparr>;
          (compiled, msgs) = compileRegexes env (SkipAuthRegex opts) (CompiledRegex opts) msgs;
          opts = opts\<lparr>CompiledRegex := compiled\<rparr>;
          (opts, w, msgs) = parseProviderInfo env opts w msgs;
          msgs = cookieSecretSize env opts msgs;
          msgs = cookieRefresh env opts msgs;
          msgs = cookieSameSite opts msgs;
          (opts, msgs) = parseSignatureKey env opts msgs;
          msgs = validateCookieName env opts msgs;
          msgs = realClientIPHeader env opts msgs
      in (msgs, opts, w))"

definition Validate :: "Env \<Rightarrow> Options \<Rightarrow> World \<Rightarrow> string option \<times> Options \<times> World" where
  "Validate env opts w =
     (let (msgs, opts, w) = collect env opts w
      in if length msgs \<noteq> 0
         then (Some (''Invalid configuration:'' @ [CHR 0x0A] @ ''  ''
                       @ Join msgs ([CHR 0x0A] @ ''  '')), opts, w)
         else (None, opts, w))"

section \<open>The report, check by check\<close>

text \<open>
  The messages of each check when it is run on its own, on an empty message list and
  on the options as they were given. \<open>report\<close> puts them one after the other in the
  order of the checks: this is the validation report as the specification describes
  it, to be compared with what \<open>Validate\<close> collects.
\<close>

definition urlMsgs :: "Env \<Rightarrow> string \<Rightarrow> string \<Rightarrow> string list" where
  "urlMsgs env to_parse urltype = snd (parseURL env to_parse urltype [])"

definition upstreamMsgs :: "Env \<Rightarrow> Options \<Rightarrow> string list" where
  "upstreamMsgs env opts = snd (parseUpstreams env (Upstreams opts) [] [])"

definition regexMsgs :: "Env \<Rightarrow> Options \<Rightarrow> string list" where
  "regexMsgs env opts = snd (compileRegexes env (SkipAuthRegex opts) [] [])"

definition providerMsgs :: "Env \<Rightarrow> Options \<Rightarrow> string list" where
  "providerMsgs env opts =
     snd (snd (parseProviderInfo env opts \<lparr>insecure_tls = False, opened = []\<rparr> []))"

definition report :: "Env \<Rightarrow> Options \<Rightarrow> string list" where
  "report env opts =
     snd (insecureTLS env opts \<lparr>insecure_tls = False, opened = []\<rparr> [])
     @ requiredSettings opts []
     @ urlMsgs env (RedirectURL opts) ''redirect''
     @ upstreamMsgs env opts
     @ regexMsgs env opts
     @ providerMsgs env opts
     @ cookieSecretSize env opts []
     @ cookieRefresh env opts []
     @ cookieSameSite opts []
     @ snd (parseSignatureKey env opts [])
     @ validateCookieName env opts []
     @ realClientIPHeader env opts []"

text \<open>
  The messages of the Google case and of the OIDC case of the type switch, written out
  as lists, and those of the type switch as a whole.
\<close>

definition googleMsgs :: "Env \<Rightarrow> Options \<Rightarrow> string list" where
  "googleMsgs env opts =
     (if GoogleGroups opts \<noteq> [] \<or> GoogleAdminEmail opts \<noteq> ''''
         \<or> GoogleServiceAccountJSON opts \<noteq> ''''
      then (if GoogleGroups opts = [] then [''missing setting: google-group''] else [])
           @ (if GoogleAdminEmail opts = ''''
              then [''missing setting: google-admin-email''] else [])
           @ (if GoogleServiceAccountJSON opts = ''''
              then [''missing setting: google-service-account-json''] else [])
      else [])
     @ (if GoogleServiceAccountJSON opts \<noteq> ''''
           \<and> isl (os_Open env (GoogleServiceAccountJSON opts))
        then [''invalid Google credentials file: '' @ GoogleServiceAccountJSON opts]
        else [])"

definition oidcMsgs :: "Env \<Rightarrow> Options \<Rightarrow> string list" where
  "oidcMsgs env opts =
     (if OIDCIssuerURL opts = '''' then [''missing-setting: oidc-issuer-url''] else [])
     @ (if SkipOIDCDiscovery opts
        then (if LoginURL opts = '''' then [''missing setting: login-url''] else [])
             @ (if RedeemURL opts = '''' then [''missing setting: redeem-url''] else [])
             @ (if OIDCJwksURL opts = '''' then [''missing setting: oidc-jwks-url''] else [])
        else (if OIDCIssuerURL opts = '''' then []
              else case SetIssuerURL_err env (OIDCIssuerURL opts) of
                     Some err \<Rightarrow> [err]
                   | None \<Rightarrow> []))"

definition variantMsgs :: "Env \<Rightarrow> Options \<Rightarrow> string list" where
  "variantMsgs env opts =
     (case providers_New env (Provider opts) of
        GoogleProvider \<Rightarrow> googleMsgs env opts
      | OIDCProvider \<Rightarrow> oidcMsgs env opts
      | _ \<Rightarrow> [])"

definition providerURLMsgs :: "Env \<Rightarrow> Options \<Rightarrow> string list" where
  "providerURLMsgs env opts =
     urlMsgs env (LoginURL opts) ''login'' @ urlMsgs env (RedeemURL opts) ''redeem''
     @ urlMsgs env (ProfileURL opts) ''profile'' @ urlMsgs env (ValidateURL opts) ''validate''
     @ urlMsgs env (ProtectedResource opts) ''resource''"

section \<open>An environment and options for the examples\<close>

text \<open>
  The theorems below hold for every environment. Their examples run in this one:
  \<^item> the default transport has the expected type, \<open>url.Parse\<close> is the model above;
  \<^item> \<open>%q\<close> puts the string between double quotes, which is what Go prints for
    printable ASCII without a double quote or a backslash;
  \<^item> the text of a \<open>url.Parse\<close> error is made of the operation, the URL and a word for
    the cause;
  \<^item> every expression compiles, no file can be opened, discovery succeeds;
  \<^item> the digest names are \<open>md5\<close>, \<open>sha1\<close> and \<open>sha256\<close>;
  \<^item> a cookie with a non-empty name prints as the name and \<open>=\<close>;
  \<^item> a duration prints as its nanoseconds in decimal, followed by \<open>ns\<close>.
\<close>

definition quote_ascii :: "string \<Rightarrow> string" where
  "quote_ascii s = [CHR 0x22] @ s @ [CHR 0x22]"

fun url_error_text :: "url_error \<Rightarrow> string" where
  "url_error_text InvalidControlCharacter = ''net/url: invalid control character in URL''"
| "url_error_text MissingProtocolScheme = ''missing protocol scheme''"
| "url_error_text FirstPathSegmentColon = ''first path segment in URL cannot contain colon''"
| "url_error_text MissingBracketInHost = ''missing ] in host''"
| "url_error_text (InvalidPort p) = ''invalid port '' @ quote_ascii p @ '' after host''"
| "url_error_text InvalidUserinfo = ''net/url: invalid userinfo''"
| "url_error_text (EscapeError e) = ''invalid URL escape '' @ quote_ascii e"
| "url_error_text (InvalidHostError e) = ''invalid character '' @ quote_ascii e @ '' in host name''"

definition example_url_Parse :: "string \<Rightarrow> string + URL" where
  "example_url_Parse s =
     (case Parse s of
        Inl (u, err) \<Rightarrow> Inl (''parse '' @ u @ '': '' @ url_error_text err)
      | Inr url \<Rightarrow> Inr url)"

text \<open>
  Modelled from the spec: \<open>providers.New\<close> is not in the two source files. The provider
  names are the names of the variants in the data model of the specification, in lower
  case; every other name gives a provider for which the type switch has no case.
\<close>

definition example_providers_New :: "string \<Rightarrow> ProviderType" where
  "example_providers_New name =
     (if name = ''azure'' then AzureProvider
      else if name = ''bitbucket'' then BitbucketProvider
      else if name = ''github'' then GitHubProvider
      else if name = ''gitlab'' then GitLabProvider
      else if name = ''google'' then GoogleProvider
      else if name = ''oidc'' then OIDCProvider
      else OtherProvider)"

definition example_digest :: "string \<Rightarrow> string + crypto_Hash" where
  "example_digest name =
     (if name = ''md5'' then Inr MD5
      else if name = ''sha1'' then Inr SHA1
      else if name = ''sha256'' then Inr SHA256
      else Inl (''hmacauth: hash algorithm not supported: '' @ name))"

definition example_env :: Env where
  "example_env =
     \<lparr>DefaultTransport_ok = True,
      url_Parse = example_url_Parse,
      regexp_Compile = (\<lambda>s. Inr (Regexp s)),
      os_Open = (\<lambda>name. Inl (''open '' @ name @ '': no such file or directory'')),
      providers_New = example_providers_New,
      SetIssuerURL_err = (\<lambda>issuer. None),
      DigestNameToCryptoHash = example_digest,
      Cookie_String = (\<lambda>name. if name = '''' then '''' else name @ ''=''),
      fmt_q = quote_ascii,
      Duration_String = (\<lambda>d. fmt_d (sint d) @ ''ns'')\<rparr>"

definition example_world :: World where
  "example_world = \<lparr>insecure_tls = False, opened = []\<rparr>"

text \<open>
  Options that pass validation in the example environment: the defaults with the
  three required settings, an email domain and a cookie secret of 16 bytes.
\<close>

definition example_options :: Options where
  "example_options =
     (NewOptions '''')\<lparr>ClientID := ''id'', ClientSecret := ''secret'',
        EmailDomains := [''*''], CookieSecret := ''0123456789abcdef''\<rparr>"

section \<open>Properties of the secret codec\<close>

lemma secretBytes_raw_or_sized:
  "secretBytes s = s \<or> length (secretBytes s) = 16 \<or> length (secretBytes s) = 24
     \<or> length (secretBytes s) = 32"
  by (simp add: secretBytes_def split: option.split)

lemma valid_size_fold:
  "foldl (\<lambda>v i. if n = i then True else v) False [16, 24, 32::nat]
     \<longleftrightarrow> n = 16 \<or> n = 24 \<or> n = 32"
  by simp

lemma secretBytes_invalid_raw:
  assumes "length (secretBytes s) \<noteq> 16" "length (secretBytes s) \<noteq> 24"
    "length (secretBytes s) \<noteq> 32"
  shows "secretBytes s = s"
  using assms secretBytes_raw_or_sized [of s] by blast

lemma secretBytes_length_valid_iff:
  "length (secretBytes s) \<in> {16, 24, 32} \<longleftrightarrow>
     length s \<in> {16, 24, 32} \<or>
     (\<exists>b. DecodeString (addPadding s) = Some b \<and> length b \<in> {16, 24, 32})"
  by (auto simp add: secretBytes_def split: option.split)

section \<open>Splitting at a separator\<close>

lemma Split_no_sep: "sep \<notin> set s \<Longrightarrow> Split s sep = [s]"
  by (subst Split.simps) simp

lemma cut_at_sep:
  assumes "sep \<notin> set a"
  shows "takeWhile (\<lambda>c. c \<noteq> sep) (a @ sep # b) = a"
    and "tl (dropWhile (\<lambda>c. c \<noteq> sep) (a @ sep # b)) = b"
  using assms by (induction a) auto

lemma first_sep:
  assumes "sep \<in> set s"
  shows "\<exists>a b. s = a @ sep # b \<and> sep \<notin> set a"
  using assms by (rule split_list_first)

lemma Split_at_sep:
  assumes "sep \<notin> set a"
  shows "Split (a @ sep # b) sep = a # Split b sep"
  using assms by (subst Split.simps) (simp add: cut_at_sep)

lemma Split_length: "length (Split s sep) = Suc (count_list s sep)"
proof (induction s rule: length_induct)
  case (1 s)
  show ?case
  proof (cases "sep \<in> set s")
    case True
    from first_sep [OF True] obtain a b where s: "s = a @ sep # b" and a: "sep \<notin> set a"
      by (elim exE conjE)
    from a have a0: "count_list a sep = 0" by (rule count_notin)
    have "length b < length s" using s by simp
    with "1.IH" have "length (Split b sep) = Suc (count_list b sep)" by blast
    with a a0 show ?thesis unfolding s by (simp add: Split_at_sep)
  next
    case False
    then show ?thesis by (simp add: Split_no_sep count_notin)
  qed
qed

lemma Split_two:
  assumes "count_list s sep = 1"
  shows "Split s sep = [takeWhile (\<lambda>c. c \<noteq> sep) s, tl (dropWhile (\<lambda>c. c \<noteq> sep) s)]"
proof -
  have mem: "sep \<in> set s"
  proof (rule ccontr)
    assume "sep \<notin> set s"
    then have "count_list s sep = 0" by (rule count_notin)
    with assms show False by simp
  qed
  from first_sep [OF mem] obtain a b where s: "s = a @ sep # b" and a: "sep \<notin> set a"
    by (elim exE conjE)
  from a have a0: "count_list a sep = 0" by (rule count_notin)
  from assms a0 have "count_list b sep = 0" unfolding s by simp
  then have "sep \<notin> set b" by (simp add: count_list_0_iff)
  then have "Split b sep = [b]" by (rule Split_no_sep)
  with a show ?thesis unfolding s by (simp add: Split_at_sep cut_at_sep)
qed

section \<open>Every check only appends messages\<close>

lemma parseUpstreams_eq:
  "parseUpstreams env us urls msgs =
     (urls @ concat (map (\<lambda>u. case url_Parse env u of
                               Inl err \<Rightarrow> []
                             | Inr p \<Rightarrow> [if Path p = '''' then p\<lparr>Path := ''/''\<rparr> else p]) us),
      msgs @ concat (map (\<lambda>u. case url_Parse env u of
                               Inl err \<Rightarrow> [''error parsing upstream: '' @ err]
                             | Inr p \<Rightarrow> []) us))"
  by (induction us arbitrary: urls msgs) (simp_all split: sum.split)

lemma compileRegexes_eq:
  "compileRegexes env us compiled msgs =
     (compiled @ concat (map (\<lambda>u. case regexp_Compile env u of
                               Inl err \<Rightarrow> [] | Inr re \<Rightarrow> [re]) us),
      msgs @ concat (map (\<lambda>u. case regexp_Compile env u of
                               Inl err \<Rightarrow> [''error compiling regex='' @ fmt_q env u @ '' '' @ err]
                             | Inr re \<Rightarrow> []) us))"
  by (induction us arbitrary: compiled msgs) (simp_all split: sum.split)

lemma parseUpstreams_snd:
  "snd (parseUpstreams env (Upstreams opts) urls msgs) = msgs @ upstreamMsgs env opts"
  by (simp add: upstreamMsgs_def parseUpstreams_eq)

lemma compileRegexes_snd:
  "snd (compileRegexes env (SkipAuthRegex opts) compiled msgs) = msgs @ regexMsgs env opts"
  by (simp add: regexMsgs_def compileRegexes_eq)

lemma parseURL_snd: "snd (parseURL env s t msgs) = msgs @ urlMsgs env s t"
  by (simp add: urlMsgs_def parseURL_def split: sum.split)

lemma parseProviderURLs_snd:
  "snd (parseProviderURLs env opts msgs) = msgs @ providerURLMsgs env opts"
  by (simp add: parseProviderURLs_def providerURLMsgs_def split_def Let_def parseURL_snd)

lemma insecureTLS_snd:
  "snd (insecureTLS env opts w msgs) = msgs @ snd (insecureTLS env opts w' [])"
  by (simp add: insecureTLS_def)

lemma requiredSettings_app:
  "requiredSettings opts msgs = msgs @ requiredSettings opts []"
  by (simp add: requiredSettings_def Let_def)

lemma cookieSecretSize_app:
  "cookieSecretSize env opts msgs = msgs @ cookieSecretSize env opts []"
  by (simp add: cookieSecretSize_def Let_def)

lemma cookieRefresh_app: "cookieRefresh env opts msgs = msgs @ cookieRefresh env opts []"
  by (simp add: cookieRefresh_def)

lemma cookieSameSite_app: "cookieSameSite opts msgs = msgs @ cookieSameSite opts []"
  by (simp add: cookieSameSite_def)

lemma validateCookieName_app:
  "validateCookieName env opts msgs = msgs @ validateCookieName env opts []"
  by (simp add: validateCookieName_def)

lemma realClientIPHeader_app:
  "realClientIPHeader env opts msgs = msgs @ realClientIPHeader env opts []"
  by (simp add: realClientIPHeader_def Let_def)

lemma parseSignatureKey_snd:
  "snd (parseSignatureKey env opts msgs) = msgs @ snd (parseSignatureKey env opts [])"
  by (simp add: parseSignatureKey_def Let_def split: sum.split)


lemma configureGoogle_msgs:
  "snd (snd (configureGoogle env opts p w msgs)) = msgs @ googleMsgs env opts"
  by (simp add: configureGoogle_def googleMsgs_def Let_def split: sum.split)

lemma configureGoogle_opened:
  "opened (fst (snd (configureGoogle env opts p w msgs))) =
     opened w @ (if GoogleServiceAccountJSON opts = '''' then []
                 else [GoogleServiceAccountJSON opts])"
  by (simp add: configureGoogle_def Let_def split: sum.split)

lemma configureOIDC_msgs:
  "snd (configureOIDC env opts p msgs) = msgs @ oidcMsgs env opts"
  by (simp add: configureOIDC_def oidcMsgs_def Let_def split: option.split)

lemma configureOIDC_calls:
  "calls (fst (configureOIDC env opts p msgs)) =
     calls p @
       (if SkipOIDCDiscovery opts
        then (if OIDCIssuerURL opts \<noteq> '''' \<and> OIDCJwksURL opts \<noteq> ''''
              then [SetVerifier (OIDCIssuerURL opts) (OIDCJwksURL opts)] else [])
        else (if OIDCIssuerURL opts \<noteq> '''' then [SetIssuerURL (OIDCIssuerURL opts)] else []))"
  by (simp add: configureOIDC_def call_def Let_def split: option.split)

lemma configureProvider_msgs:
  "snd (snd (configureProvider env opts p w msgs)) =
     msgs @ (case ptype p of
               GoogleProvider \<Rightarrow> googleMsgs env opts
             | OIDCProvider \<Rightarrow> oidcMsgs env opts
             | _ \<Rightarrow> [])"
  by (simp add: configureProvider_def configureGoogle_msgs configureOIDC_msgs split_def
        split: ProviderType.split)

lemma parseProviderInfo_msgs:
  "snd (snd (parseProviderInfo env opts w msgs)) =
     msgs @ providerURLMsgs env opts @ variantMsgs env opts"
  by (simp add: parseProviderInfo_def variantMsgs_def split_def Let_def
        configureProvider_msgs parseProviderURLs_snd)

lemma providerMsgs_eq: "providerMsgs env opts = providerURLMsgs env opts @ variantMsgs env opts"
  by (simp add: providerMsgs_def parseProviderInfo_msgs)

lemma parseProviderInfo_opts:
  "fst (parseProviderInfo env opts w msgs) =
     opts\<lparr>provider := provider (fst (parseProviderInfo env opts w msgs))\<rparr>"
  by (simp add: parseProviderInfo_def split_def Let_def)

lemma parseSignatureKey_opts:
  "fst (parseSignatureKey env opts msgs) =
     opts\<lparr>signatureData := signatureData (fst (parseSignatureKey env opts msgs))\<rparr>"
  by (simp add: parseSignatureKey_def Let_def split: sum.split)

section \<open>What \<open>Validate\<close> collects is the report\<close>

lemma googleMsgs_internal:
  "googleMsgs env (opts\<lparr>redirectURL := a, proxyURLs := b, CompiledRegex := c\<rparr>) =
     googleMsgs env opts"
  by (simp add: googleMsgs_def)

lemma oidcMsgs_internal:
  "oidcMsgs env (opts\<lparr>redirectURL := a, proxyURLs := b, CompiledRegex := c\<rparr>) =
     oidcMsgs env opts"
  by (simp add: oidcMsgs_def)

lemma providerMsgs_internal:
  "providerMsgs env (opts\<lparr>redirectURL := a, proxyURLs := b, CompiledRegex := c\<rparr>) =
     providerMsgs env opts"
  by (simp add: providerMsgs_eq providerURLMsgs_def variantMsgs_def googleMsgs_internal
        oidcMsgs_internal cong: ProviderType.case_cong)

lemma cookieSecretSize_internal:
  "cookieSecretSize env (opts\<lparr>redirectURL := a, proxyURLs := b, CompiledRegex := c,
      provider := d\<rparr>) msgs = cookieSecretSize env opts msgs"
  by (simp add: cookieSecretSize_def)

lemma cookieRefresh_internal:
  "cookieRefresh env (opts\<lparr>redirectURL := a, proxyURLs := b, CompiledRegex := c,
      provider := d\<rparr>) msgs = cookieRefresh env opts msgs"
  by (simp add: cookieRefresh_def)

lemma cookieSameSite_internal:
  "cookieSameSite (opts\<lparr>redirectURL := a, proxyURLs := b, CompiledRegex := c,
      provider := d\<rparr>) msgs = cookieSameSite opts msgs"
  by (simp add: cookieSameSite_def)

lemma parseSignatureKey_internal:
  "snd (parseSignatureKey env (opts\<lparr>redirectURL := a, proxyURLs := b, CompiledRegex := c,
      provider := d\<rparr>) msgs) = snd (parseSignatureKey env opts msgs)"
  by (simp add: parseSignatureKey_def Let_def split: sum.split)

lemma validateCookieName_internal:
  "validateCookieName env (opts\<lparr>redirectURL := a, proxyURLs := b, CompiledRegex := c,
      provider := d, signatureData := e\<rparr>) msgs = validateCookieName env opts msgs"
  by (simp add: validateCookieName_def)

lemma realClientIPHeader_internal:
  "realClientIPHeader env (opts\<lparr>redirectURL := a, proxyURLs := b, CompiledRegex := c,
      provider := d, signatureData := e\<rparr>) msgs = realClientIPHeader env opts msgs"
  by (simp add: realClientIPHeader_def)

lemma collect_unfold:
  "collect env opts w =
     (let t = insecureTLS env opts w [];
          r = parseURL env (RedirectURL opts) ''redirect'' (requiredSettings opts (snd t));
          u = parseUpstreams env (Upstreams opts) (proxyURLs opts) (snd r);
          c = compileRegexes env (SkipAuthRegex opts) (CompiledRegex opts) (snd u);
          p = parseProviderInfo env
                (opts\<lparr>redirectURL := fst r, proxyURLs := fst u, CompiledRegex := fst c\<rparr>)
                (fst t) (snd c);
          s = parseSignatureKey env (fst p)
                (cookieSameSite (fst p) (cookieRefresh env (fst p)
                   (cookieSecretSize env (fst p) (snd (snd p)))))
      in (realClientIPHeader env (fst s) (validateCookieName env (fst s) (snd s)),
          fst s, fst (snd p)))"
  by (simp add: collect_def Let_def split_def)


lemma collect_msgs: "fst (collect env opts w) = report env opts"
proof -
  define t where "t = insecureTLS env opts w []"
  define r where "r = parseURL env (RedirectURL opts) ''redirect'' (requiredSettings opts (snd t))"
  define u where "u = parseUpstreams env (Upstreams opts) (proxyURLs opts) (snd r)"
  define c where "c = compileRegexes env (SkipAuthRegex opts) (CompiledRegex opts) (snd u)"
  define o3 where "o3 = opts\<lparr>redirectURL := fst r, proxyURLs := fst u, CompiledRegex := fst c\<rparr>"
  define p where "p = parseProviderInfo env o3 (fst t) (snd c)"
  define m where "m = cookieSameSite (fst p) (cookieRefresh env (fst p)
                   (cookieSecretSize env (fst p) (snd (snd p))))"
  define s where "s = parseSignatureKey env (fst p) m"
  have run: "fst (collect env opts w) =
      realClientIPHeader env (fst s) (validateCookieName env (fst s) (snd s))"
    by (simp add: collect_unfold Let_def t_def r_def u_def c_def o3_def p_def m_def s_def)
  have o4: "fst p = opts\<lparr>redirectURL := fst r, proxyURLs := fst u, CompiledRegex := fst c,
      provider := provider (fst p)\<rparr>"
    using parseProviderInfo_opts [of env o3 "fst t" "snd c"] by (simp add: p_def o3_def)
  have o5: "fst s = opts\<lparr>redirectURL := fst r, proxyURLs := fst u, CompiledRegex := fst c,
      provider := provider (fst p), signatureData := signatureData (fst s)\<rparr>"
    using parseSignatureKey_opts [of env "fst p" m] o4 by (simp add: s_def)
  have 1: "snd t = snd (insecureTLS env opts \<lparr>insecure_tls = False, opened = []\<rparr> [])"
    unfolding t_def using insecureTLS_snd [of env opts w "[]"] by simp
  have 2: "snd r = snd t @ requiredSettings opts [] @ urlMsgs env (RedirectURL opts) ''redirect''"
    unfolding r_def using requiredSettings_app [of opts "snd t"] by (simp add: parseURL_snd)
  have 3: "snd u = snd r @ upstreamMsgs env opts"
    unfolding u_def by (rule parseUpstreams_snd)
  have 4: "snd c = snd u @ regexMsgs env opts"
    unfolding c_def by (rule compileRegexes_snd)
  have 5: "snd (snd p) = snd c @ providerMsgs env opts"
    unfolding p_def o3_def by (simp add: parseProviderInfo_msgs providerMsgs_eq [symmetric]
        providerMsgs_internal)
  have 6: "cookieSecretSize env (fst p) (snd (snd p)) = snd (snd p) @ cookieSecretSize env opts []"
    using cookieSecretSize_app [of env opts "snd (snd p)"]
    by (subst o4) (simp only: cookieSecretSize_internal)
  have 7: "cookieRefresh env (fst p) x = x @ cookieRefresh env opts []" for x
    using cookieRefresh_app [of env opts x]
    by (subst o4) (simp only: cookieRefresh_internal)
  have 8: "cookieSameSite (fst p) x = x @ cookieSameSite opts []" for x
    using cookieSameSite_app [of opts x]
    by (subst o4) (simp only: cookieSameSite_internal)
  have 9: "snd s = m @ snd (parseSignatureKey env opts [])"
    unfolding s_def using parseSignatureKey_snd [of env opts m]
    by (subst o4) (simp only: parseSignatureKey_internal)
  have 10: "validateCookieName env (fst s) x = x @ validateCookieName env opts []" for x
    using validateCookieName_app [of env opts x]
    by (subst o5) (simp only: validateCookieName_internal)
  have 11: "realClientIPHeader env (fst s) x = x @ realClientIPHeader env opts []" for x
    using realClientIPHeader_app [of env opts x]
    by (subst o5) (simp only: realClientIPHeader_internal)
  have "m = snd (snd p) @ cookieSecretSize env opts [] @ cookieRefresh env opts []
      @ cookieSameSite opts []"
    unfolding m_def by (simp only: 6 7 8 append_assoc)
  with run 1 2 3 4 5 9 show ?thesis
    by (simp only: 10 11 report_def append_assoc)
qed

section \<open>The same-site check\<close>

text \<open>
  C9. The same-site check leaves the messages as they are exactly when the setting is
  one of the four strings \<open>""\<close>, \<open>"none"\<close>, \<open>"lax"\<close>, \<open>"strict"\<close>; for every other value it
  appends one message, which contains the value.
\<close>

theorem cookieSameSite_accepts_exactly:
  "cookieSameSite opts msgs =
     (if CookieSameSite opts \<in> {'''', ''none'', ''lax'', ''strict''} then msgs
      else msgs @ [''cookie_samesite ('' @ CookieSameSite opts @ '') must be one of [''
                    @ [CHR 0x27, CHR 0x27] @ '', '' @ [CHR 0x27] @ ''lax'' @ [CHR 0x27]
                    @ '', '' @ [CHR 0x27] @ ''strict'' @ [CHR 0x27]
                    @ '', '' @ [CHR 0x27] @ ''none'' @ [CHR 0x27] @ '']''])
   \<and> (cookieSameSite opts msgs = msgs \<longleftrightarrow>
        CookieSameSite opts \<in> {'''', ''none'', ''lax'', ''strict''})"
  by (simp add: cookieSameSite_def)

theorem cookieSameSite_accepts_exactly_witness:
  "cookieSameSite ((NewOptions '''')\<lparr>CookieSameSite := ''lax''\<rparr>) [''m''] = [''m'']
   \<and> cookieSameSite ((NewOptions '''')\<lparr>CookieSameSite := ''Lax''\<rparr>) [''m''] \<noteq> [''m'']"
  using cookieSameSite_accepts_exactly [of "(NewOptions '''')\<lparr>CookieSameSite := ''lax''\<rparr>" "[''m'']"]
    cookieSameSite_accepts_exactly [of "(NewOptions '''')\<lparr>CookieSameSite := ''Lax''\<rparr>" "[''m'']"]
  by (simp add: NewOptions_def)

section \<open>The signature key\<close>

text \<open>
  C1 (amended). For a non-empty signature key the parser splits at every colon. A key
  with no colon or with more than one is reported as an invalid hash:key spec, so
  \<open>sha1:a:b\<close> is reported and does not resolve. A key with exactly one colon is cut
  there: when the part before the colon is a supported digest name, the signature data
  hold that algorithm and the part after the colon; otherwise the key is reported as
  unsupported.
\<close>

theorem parseSignatureKey_one_colon:
  assumes "SignatureKey opts \<noteq> ''''"
  shows "parseSignatureKey env opts msgs =
     (if count_list (SignatureKey opts) CHR '':'' \<noteq> 1
      then (opts, msgs @ [''invalid signature hash:key spec: '' @ SignatureKey opts])
      else case DigestNameToCryptoHash env
                  (takeWhile (\<lambda>c. c \<noteq> CHR '':'') (SignatureKey opts)) of
             Inl err \<Rightarrow>
               (opts, msgs @ [''unsupported signature hash algorithm: '' @ SignatureKey opts])
           | Inr h \<Rightarrow>
               (opts\<lparr>signatureData := Some \<lparr>hash = h,
                   key = tl (dropWhile (\<lambda>c. c \<noteq> CHR '':'') (SignatureKey opts))\<rparr>\<rparr>, msgs))"
proof (cases "count_list (SignatureKey opts) CHR '':'' = 1")
  case True
  then have "Split (SignatureKey opts) CHR '':'' =
      [takeWhile (\<lambda>c. c \<noteq> CHR '':'') (SignatureKey opts),
       tl (dropWhile (\<lambda>c. c \<noteq> CHR '':'') (SignatureKey opts))]"
    by (rule Split_two)
  with True assms show ?thesis
    by (simp add: parseSignatureKey_def split: sum.split)
next
  case False
  then have "length (Split (SignatureKey opts) CHR '':'') \<noteq> 2"
    by (simp add: Split_length)
  with False assms show ?thesis
    by (simp add: parseSignatureKey_def)
qed

theorem parseSignatureKey_one_colon_witness:
  "SignatureKey (example_options\<lparr>SignatureKey := ''sha1:secret''\<rparr>) \<noteq> ''''
   \<and> snd (parseSignatureKey example_env (example_options\<lparr>SignatureKey := ''sha1:secret''\<rparr>) []) = []
   \<and> signatureData (fst (parseSignatureKey example_env
         (example_options\<lparr>SignatureKey := ''sha1:secret''\<rparr>) []))
       = Some \<lparr>hash = SHA1, key = ''secret''\<rparr>"
proof -
  have ne: "SignatureKey (example_options\<lparr>SignatureKey := ''sha1:secret''\<rparr>) \<noteq> ''''"
    by simp
  have d: "DigestNameToCryptoHash example_env ''sha1'' = Inr SHA1"
    by (simp add: example_env_def example_digest_def)
  show ?thesis
    using parseSignatureKey_one_colon [OF ne, of example_env "[]"] d by simp
qed

theorem parseSignatureKey_first_colon_counterexample:
  "DigestNameToCryptoHash example_env ''sha1'' = Inr SHA1
   \<and> snd (parseSignatureKey example_env (example_options\<lparr>SignatureKey := ''sha1:a:b''\<rparr>) [])
       = [''invalid signature hash:key spec: sha1:a:b'']
   \<and> signatureData (fst (parseSignatureKey example_env
         (example_options\<lparr>SignatureKey := ''sha1:a:b''\<rparr>) [])) = None"
  by code_simp

section \<open>The secret codec and the size of the cookie secret\<close>

text \<open>
  C3 (amended). The codec appends \<open>==\<close> to a secret whose length is 2 modulo 4 and \<open>=\<close>
  to one whose length is 3 modulo 4, which makes the length a multiple of 4, and leaves
  every other secret as it is (so a secret whose length is 1 modulo 4 is decoded at
  that length). It then decodes; it returns the decoded bytes exactly when decoding
  succeeds with 16, 24 or 32 bytes, and the bytes of the secret itself in every other
  case.
\<close>

theorem secretBytes_codec:
  "(length s mod 4 = 2 \<longrightarrow> addPadding s = s @ ''=='')
   \<and> (length s mod 4 = 3 \<longrightarrow> addPadding s = s @ ''='')
   \<and> (length s mod 4 = 0 \<or> length s mod 4 = 1 \<longrightarrow> addPadding s = s)
   \<and> (length s mod 4 \<noteq> 1 \<longrightarrow> length (addPadding s) mod 4 = 0)
   \<and> secretBytes s =
       (case DecodeString (addPadding s) of
          Some b \<Rightarrow> if length b \<in> {16, 24, 32} then b else s
        | None \<Rightarrow> s)"
proof -
  have "length s mod 4 \<noteq> 1 \<longrightarrow> length (addPadding s) mod 4 = 0"
    unfolding addPadding_def by (auto simp add: mod_Suc)
  moreover have "secretBytes s =
       (case DecodeString (addPadding s) of
          Some b \<Rightarrow> if length b \<in> {16, 24, 32} then b else s
        | None \<Rightarrow> s)"
    by (simp add: secretBytes_def split: option.split)
  ultimately show ?thesis by (simp add: addPadding_def)
qed

theorem secretBytes_codec_witness:
  "length ''AAAAAAAAAAAAAAAAAAAAAA'' mod 4 = 2
   \<and> addPadding ''AAAAAAAAAAAAAAAAAAAAAA'' = ''AAAAAAAAAAAAAAAAAAAAAA==''
   \<and> secretBytes ''AAAAAAAAAAAAAAAAAAAAAA'' = replicate 16 (CHR 0x00)
   \<and> secretBytes ''0123456789abcdefg'' = ''0123456789abcdefg''"
proof -
  have d1: "DecodeString ''AAAAAAAAAAAAAAAAAAAAAA=='' = Some (replicate 16 (CHR 0x00))"
    by code_simp
  have d2: "DecodeString ''0123456789abcdefg'' = None"
    by code_simp
  show ?thesis
    using secretBytes_codec [of "''AAAAAAAAAAAAAAAAAAAAAA''"]
      secretBytes_codec [of "''0123456789abcdefg''"] d1 d2
    by simp
qed

theorem addPadding_multiple_of_4_counterexample:
  "addPadding ''a'' = ''a'' \<and> length (addPadding ''a'') mod 4 \<noteq> 0"
  by (simp add: addPadding_def)


text \<open>
  C4. The size check of the cookie secret runs exactly when access-token pass-through
  is enabled or the refresh interval is not zero. It then passes exactly when the
  secret has 16, 24 or 32 bytes as it is, or decodes (after the padding is restored)
  to 16, 24 or 32 bytes; for every other secret it appends one message, which reports
  the length of the bytes that the codec returns. In particular a secret passes that
  decodes to such a length as it stands, with its padding, or once the \<open>==\<close> or \<open>=\<close>
  that its length calls for is put back.
\<close>

theorem cookieSecretSize_passes_exactly:
  "cookieSecretSize env opts msgs =
     (if (PassAccessToken opts \<or> CookieRefresh opts \<noteq> 0) \<and>
         \<not> (length (CookieSecret opts) \<in> {16, 24, 32} \<or>
            (\<exists>b. DecodeString (addPadding (CookieSecret opts)) = Some b
                 \<and> length b \<in> {16, 24, 32}))
      then msgs @ [''cookie_secret must be 16, 24, or 32 bytes to create an AES cipher when pass_access_token == true or cookie_refresh != 0, but is ''
             @ fmt_d (int (length (secretBytes (CookieSecret opts)))) @ '' bytes.'']
      else msgs)
   \<and> (\<forall>b. length b \<in> {16, 24, 32} \<and>
          (length (CookieSecret opts) mod 4 = 0 \<and> DecodeString (CookieSecret opts) = Some b
           \<or> length (CookieSecret opts) mod 4 = 2
               \<and> DecodeString (CookieSecret opts @ ''=='') = Some b
           \<or> length (CookieSecret opts) mod 4 = 3
               \<and> DecodeString (CookieSecret opts @ ''='') = Some b) \<longrightarrow>
          cookieSecretSize env opts msgs = msgs)"
proof -
  let ?s = "CookieSecret opts"
  have valid: "length (secretBytes ?s) \<in> {16, 24, 32} \<longleftrightarrow>
     length ?s \<in> {16, 24, 32} \<or>
     (\<exists>b. DecodeString (addPadding ?s) = Some b \<and> length b \<in> {16, 24, 32})"
    by (rule secretBytes_length_valid_iff)
  show ?thesis
  proof (cases "length (secretBytes ?s) \<in> {16, 24, 32}")
    case True
    then have "cookieSecretSize env opts msgs = msgs"
      by (auto simp add: cookieSecretSize_def Let_def)
    with True valid show ?thesis by auto
  next
    case False
    then have "secretBytes ?s = ?s"
      using secretBytes_raw_or_sized [of ?s] by auto
    with False have "cookieSecretSize env opts msgs =
      (if PassAccessToken opts \<or> CookieRefresh opts \<noteq> 0
       then msgs @ [''cookie_secret must be 16, 24, or 32 bytes to create an AES cipher when pass_access_token == true or cookie_refresh != 0, but is ''
             @ fmt_d (int (length (secretBytes ?s))) @ '' bytes.'']
       else msgs)"
      by (auto simp add: cookieSecretSize_def Let_def)
    with False valid show ?thesis by (auto simp add: addPadding_def)
  qed
qed

theorem cookieSecretSize_passes_exactly_witness:
  "cookieSecretSize example_env
      (example_options\<lparr>PassAccessToken := True, CookieSecret := ''AAAAAAAAAAAAAAAAAAAAAA''\<rparr>) [] = []
   \<and> cookieSecretSize example_env
      (example_options\<lparr>CookieRefresh := 1, CookieSecret := ''0123456789abcdefg''\<rparr>) [] =
       [''cookie_secret must be 16, 24, or 32 bytes to create an AES cipher when pass_access_token == true or cookie_refresh != 0, but is 17 bytes.'']
   \<and> cookieSecretSize example_env
      (example_options\<lparr>CookieSecret := ''0123456789abcdefg''\<rparr>) [] = []
   \<and> cookieSecretSize example_env
      (example_options\<lparr>PassAccessToken := True,
         CookieSecret := ''AAAAAAAAAAAAAAAAAAAAAA==''\<rparr>) [] = []"
proof -
  have d0: "length ''AAAAAAAAAAAAAAAAAAAAAA=='' mod 4 = 0
      \<and> DecodeString ''AAAAAAAAAAAAAAAAAAAAAA=='' = Some (replicate 16 (CHR 0x00))
      \<and> length (replicate 16 (CHR 0x00)) \<in> {16, 24, 32::nat}"
    by code_simp
  have p: "cookieSecretSize example_env
      (example_options\<lparr>PassAccessToken := True,
         CookieSecret := ''AAAAAAAAAAAAAAAAAAAAAA==''\<rparr>) [] = []"
    using cookieSecretSize_passes_exactly [of example_env
        "example_options\<lparr>PassAccessToken := True,
           CookieSecret := ''AAAAAAAAAAAAAAAAAAAAAA==''\<rparr>" "[]",
        THEN conjunct2, THEN spec, of "replicate 16 (CHR 0x00)"] d0
    by simp
  have d1: "DecodeString (addPadding ''AAAAAAAAAAAAAAAAAAAAAA'') = Some (replicate 16 (CHR 0x00))"
    by code_simp
  have d2: "DecodeString (addPadding ''0123456789abcdefg'') = None"
    by code_simp
  have d3: "fmt_d (int (length (secretBytes ''0123456789abcdefg''))) = ''17''"
    by code_simp
  have r: "CookieRefresh example_options = 0" "PassAccessToken example_options = False"
    by (simp_all add: example_options_def NewOptions_def)
  show ?thesis
    using cookieSecretSize_passes_exactly [of example_env
        "example_options\<lparr>PassAccessToken := True, CookieSecret := ''AAAAAAAAAAAAAAAAAAAAAA''\<rparr>" "[]"]
      cookieSecretSize_passes_exactly [of example_env
        "example_options\<lparr>CookieRefresh := 1, CookieSecret := ''0123456789abcdefg''\<rparr>" "[]"]
      cookieSecretSize_passes_exactly [of example_env
        "example_options\<lparr>CookieSecret := ''0123456789abcdefg''\<rparr>" "[]"]
      d1 d2 d3 r p
    by simp
qed

text \<open>
  C10. Whenever the size check of the cookie secret emits its message, the length in
  the message is the length of the secret as it was given, and the message ends after
  \<open>bytes.\<close>: the note that the secret was base64 decoded is not part of it.
\<close>

theorem cookieSecretSize_message_raw:
  assumes "cookieSecretSize env opts msgs \<noteq> msgs"
  shows "cookieSecretSize env opts msgs =
     msgs @ [''cookie_secret must be 16, 24, or 32 bytes to create an AES cipher when pass_access_token == true or cookie_refresh != 0, but is ''
             @ fmt_d (int (length (CookieSecret opts))) @ '' bytes.'']"
proof -
  let ?s = "CookieSecret opts"
  from assms have run: "PassAccessToken opts \<or> CookieRefresh opts \<noteq> 0"
    by (auto simp add: cookieSecretSize_def)
  from assms run have inv: "length (secretBytes ?s) \<noteq> 16" "length (secretBytes ?s) \<noteq> 24"
    "length (secretBytes ?s) \<noteq> 32"
    by (auto simp add: cookieSecretSize_def Let_def)
  then have raw: "secretBytes ?s = ?s" by (rule secretBytes_invalid_raw)
  from run inv show ?thesis
    unfolding cookieSecretSize_def Let_def valid_size_fold raw
    using raw by auto
qed

theorem cookieSecretSize_message_raw_witness:
  "cookieSecretSize example_env
      (example_options\<lparr>PassAccessToken := True, CookieSecret := ''QUJD''\<rparr>) [''m''] \<noteq> [''m'']
   \<and> cookieSecretSize example_env
      (example_options\<lparr>PassAccessToken := True, CookieSecret := ''QUJD''\<rparr>) [''m''] =
       [''m'', ''cookie_secret must be 16, 24, or 32 bytes to create an AES cipher when pass_access_token == true or cookie_refresh != 0, but is 4 bytes.'']"
proof -
  have ne: "cookieSecretSize example_env
      (example_options\<lparr>PassAccessToken := True, CookieSecret := ''QUJD''\<rparr>) [''m''] \<noteq> [''m'']"
    by code_simp
  have e: "[''m''] @ [''cookie_secret must be 16, 24, or 32 bytes to create an AES cipher when pass_access_token == true or cookie_refresh != 0, but is ''
             @ fmt_d (int (length (CookieSecret
                 (example_options\<lparr>PassAccessToken := True, CookieSecret := ''QUJD''\<rparr>)))) @ '' bytes.''] =
       [''m'', ''cookie_secret must be 16, 24, or 32 bytes to create an AES cipher when pass_access_token == true or cookie_refresh != 0, but is 4 bytes.'']"
    by code_simp
  from cookieSecretSize_message_raw [OF ne]
  have "cookieSecretSize example_env
      (example_options\<lparr>PassAccessToken := True, CookieSecret := ''QUJD''\<rparr>) [''m''] =
       [''m'', ''cookie_secret must be 16, 24, or 32 bytes to create an AES cipher when pass_access_token == true or cookie_refresh != 0, but is 4 bytes.'']"
    unfolding e .
  with ne show ?thesis by (rule conjI)
qed

section \<open>Refresh against expiry\<close>

text \<open>
  C8. The refresh check appends exactly one message, which holds both durations, if and
  only if the refresh interval is greater than or equal to the expiry interval (as
  signed 64-bit values); equal values fail and every strictly smaller refresh value
  passes. The message is part of what \<open>Validate\<close> collects.
\<close>

theorem cookieRefresh_fails_iff:
  "cookieRefresh env opts msgs =
     (if sint (CookieExpire opts) \<le> sint (CookieRefresh opts)
      then msgs @ [''cookie_refresh ('' @ Duration_String env (CookieRefresh opts)
                    @ '') must be less than cookie_expire (''
                    @ Duration_String env (CookieExpire opts) @ '')'']
      else msgs)
   \<and> (CookieRefresh opts = CookieExpire opts \<longrightarrow> cookieRefresh env opts msgs \<noteq> msgs)
   \<and> (sint (CookieRefresh opts) < sint (CookieExpire opts) \<longrightarrow>
        cookieRefresh env opts msgs = msgs)
   \<and> (\<exists>before after.
        fst (collect env opts w) = before @ cookieRefresh env opts [] @ after)"
proof -
  have "\<exists>before after. fst (collect env opts w) = before @ cookieRefresh env opts [] @ after"
    unfolding collect_msgs report_def
    by (rule exI [of _ "snd (insecureTLS env opts \<lparr>insecure_tls = False, opened = []\<rparr> [])
         @ requiredSettings opts [] @ urlMsgs env (RedirectURL opts) ''redirect''
         @ upstreamMsgs env opts @ regexMsgs env opts @ providerMsgs env opts
         @ cookieSecretSize env opts []"],
        rule exI [of _ "cookieSameSite opts [] @ snd (parseSignatureKey env opts [])
         @ validateCookieName env opts [] @ realClientIPHeader env opts []"]) simp
  then show ?thesis by (simp add: cookieRefresh_def)
qed

theorem cookieRefresh_fails_iff_witness:
  "cookieRefresh example_env (example_options\<lparr>CookieRefresh := 3600000000000,
       CookieExpire := 3600000000000\<rparr>) [] =
     [''cookie_refresh (3600000000000ns) must be less than cookie_expire (3600000000000ns)'']
   \<and> cookieRefresh example_env (example_options\<lparr>CookieRefresh := 3599999999999,
       CookieExpire := 3600000000000\<rparr>) [] = []"
proof -
  let ?A = "example_options\<lparr>CookieRefresh := 3600000000000, CookieExpire := 3600000000000\<rparr>"
  let ?B = "example_options\<lparr>CookieRefresh := 3599999999999, CookieExpire := 3600000000000\<rparr>"
  have a: "(if sint (CookieExpire ?A) \<le> sint (CookieRefresh ?A)
      then [] @ [''cookie_refresh ('' @ Duration_String example_env (CookieRefresh ?A)
                    @ '') must be less than cookie_expire (''
                    @ Duration_String example_env (CookieExpire ?A) @ '')'']
      else []) =
     [''cookie_refresh (3600000000000ns) must be less than cookie_expire (3600000000000ns)'']"
    by code_simp
  have b: "(if sint (CookieExpire ?B) \<le> sint (CookieRefresh ?B)
      then [] @ [''cookie_refresh ('' @ Duration_String example_env (CookieRefresh ?B)
                    @ '') must be less than cookie_expire (''
                    @ Duration_String example_env (CookieExpire ?B) @ '')'']
      else []) = []"
    by code_simp
  from cookieRefresh_fails_iff [of example_env ?A "[]" example_world, THEN conjunct1]
  have 1: "cookieRefresh example_env ?A [] =
     [''cookie_refresh (3600000000000ns) must be less than cookie_expire (3600000000000ns)'']"
    unfolding a .
  from cookieRefresh_fails_iff [of example_env ?B "[]" example_world, THEN conjunct1]
  have 2: "cookieRefresh example_env ?B [] = []"
    unfolding b .
  from 1 2 show ?thesis by (rule conjI)
qed

section \<open>The aggregated error\<close>

text \<open>
  C5. \<open>Validate\<close> returns no error exactly when the messages it collected are none;
  otherwise it returns one error whose text is the heading followed by all collected
  messages, joined with a line break and two spaces, in the order of the checks. Every
  check runs to completion: what is collected is the report, in which each check
  contributes the messages it gives when run on its own, whatever the checks before
  it found.
\<close>

theorem Validate_aggregates:
  "fst (Validate env opts w) =
     (if fst (collect env opts w) = [] then None
      else Some (''Invalid configuration:'' @ [CHR 0x0A] @ ''  ''
                   @ Join (fst (collect env opts w)) ([CHR 0x0A] @ ''  '')))
   \<and> (fst (Validate env opts w) = None \<longleftrightarrow> fst (collect env opts w) = [])
   \<and> fst (collect env opts w) = report env opts"
  by (simp add: Validate_def split_def Let_def collect_msgs)

theorem Validate_aggregates_witness:
  "fst (Validate example_env example_options example_world) = None
   \<and> fst (Validate example_env
         (example_options\<lparr>ClientID := '''', CookieSameSite := ''bad'',
            RealClientIPHeader := ''X-Other''\<rparr>) example_world) =
       Some (''Invalid configuration:'' @ [CHR 0x0A]
             @ ''  missing setting: client-id'' @ [CHR 0x0A]
             @ ''  cookie_samesite (bad) must be one of ['' @ [CHR 0x27, CHR 0x27]
             @ '', '' @ [CHR 0x27] @ ''lax'' @ [CHR 0x27]
             @ '', '' @ [CHR 0x27] @ ''strict'' @ [CHR 0x27]
             @ '', '' @ [CHR 0x27] @ ''none'' @ [CHR 0x27] @ '']'' @ [CHR 0x0A]
             @ ''  unsupported real-client-ip-header '' @ [CHR 0x22] @ ''X-Other'' @ [CHR 0x22])"
proof -
  let ?B = "example_options\<lparr>ClientID := '''', CookieSameSite := ''bad'',
            RealClientIPHeader := ''X-Other''\<rparr>"
  have a: "report example_env example_options = []"
    by code_simp
  have b: "report example_env ?B =
      [''missing setting: client-id'',
       ''cookie_samesite (bad) must be one of ['' @ [CHR 0x27, CHR 0x27]
             @ '', '' @ [CHR 0x27] @ ''lax'' @ [CHR 0x27]
             @ '', '' @ [CHR 0x27] @ ''strict'' @ [CHR 0x27]
             @ '', '' @ [CHR 0x27] @ ''none'' @ [CHR 0x27] @ '']'',
       ''unsupported real-client-ip-header '' @ [CHR 0x22] @ ''X-Other'' @ [CHR 0x22]]"
    by code_simp
  show ?thesis
    using Validate_aggregates [of example_env example_options example_world]
      Validate_aggregates [of example_env ?B example_world] a b
    by simp
qed

section \<open>The provider check\<close>

lemma parseProviderInfo_provider:
  "provider (fst (parseProviderInfo env opts w msgs)) =
     Some (fst (configureProvider env opts
             \<lparr>ptype = providers_New env (Provider opts),
              pdata = fst (parseProviderURLs env opts msgs), calls = []\<rparr>
             w (snd (parseProviderURLs env opts msgs))))"
  by (simp add: parseProviderInfo_def split_def Let_def)

lemma parseProviderInfo_world:
  "fst (snd (parseProviderInfo env opts w msgs)) =
     fst (snd (configureProvider env opts
             \<lparr>ptype = providers_New env (Provider opts),
              pdata = fst (parseProviderURLs env opts msgs), calls = []\<rparr>
             w (snd (parseProviderURLs env opts msgs))))"
  by (simp add: parseProviderInfo_def split_def Let_def)

lemma configureGoogle_world:
  "GoogleServiceAccountJSON opts = '''' \<Longrightarrow> fst (snd (configureGoogle env opts p w msgs)) = w"
  by (simp add: configureGoogle_def Let_def)

text \<open>
  C2 (amended). For the OIDC provider the message for a missing issuer URL is produced
  exactly when the issuer URL is empty, whether discovery is skipped or not. When
  discovery is skipped, an empty login URL, an empty redeem URL and an empty JWKS URL
  are each reported; with none of the three supplied the provider check contributes
  those three messages, after the issuer message when the issuer URL is empty as well.
  When discovery is skipped and both the issuer URL and the JWKS URL are present, a
  verifier is attached to the provider.
\<close>

theorem parseProviderInfo_OIDC:
  assumes "providers_New env (Provider opts) = OIDCProvider"
  shows "snd (snd (parseProviderInfo env opts w msgs)) =
       msgs @ providerURLMsgs env opts
       @ (if OIDCIssuerURL opts = '''' then [''missing-setting: oidc-issuer-url''] else [])
       @ (if SkipOIDCDiscovery opts
          then (if LoginURL opts = '''' then [''missing setting: login-url''] else [])
               @ (if RedeemURL opts = '''' then [''missing setting: redeem-url''] else [])
               @ (if OIDCJwksURL opts = '''' then [''missing setting: oidc-jwks-url''] else [])
          else (if OIDCIssuerURL opts = '''' then []
                else case SetIssuerURL_err env (OIDCIssuerURL opts) of
                       Some err \<Rightarrow> [err]
                     | None \<Rightarrow> []))
   \<and> (SkipOIDCDiscovery opts \<and> LoginURL opts = '''' \<and> RedeemURL opts = ''''
        \<and> OIDCJwksURL opts = '''' \<longrightarrow>
        snd (snd (parseProviderInfo env opts w msgs)) =
          msgs @ providerURLMsgs env opts
          @ (if OIDCIssuerURL opts = '''' then [''missing-setting: oidc-issuer-url''] else [])
          @ [''missing setting: login-url'', ''missing setting: redeem-url'',
             ''missing setting: oidc-jwks-url''])
   \<and> (SkipOIDCDiscovery opts \<and> OIDCIssuerURL opts \<noteq> '''' \<and> OIDCJwksURL opts \<noteq> '''' \<longrightarrow>
        map_option calls (provider (fst (parseProviderInfo env opts w msgs))) =
          Some [SetVerifier (OIDCIssuerURL opts) (OIDCJwksURL opts)])"
proof -
  have m: "snd (snd (parseProviderInfo env opts w msgs)) =
      msgs @ providerURLMsgs env opts @ oidcMsgs env opts"
    using assms by (simp add: parseProviderInfo_msgs variantMsgs_def)
  have c: "map_option calls (provider (fst (parseProviderInfo env opts w msgs))) =
      Some (if SkipOIDCDiscovery opts
        then (if OIDCIssuerURL opts \<noteq> '''' \<and> OIDCJwksURL opts \<noteq> ''''
              then [SetVerifier (OIDCIssuerURL opts) (OIDCJwksURL opts)] else [])
        else (if OIDCIssuerURL opts \<noteq> '''' then [SetIssuerURL (OIDCIssuerURL opts)] else []))"
  proof -
    have "provider (fst (parseProviderInfo env opts w msgs)) =
        Some (fst (configureOIDC env opts
             \<lparr>ptype = OIDCProvider, pdata = fst (parseProviderURLs env opts msgs), calls = []\<rparr>
             (snd (parseProviderURLs env opts msgs))))"
      using assms
      by (simp add: parseProviderInfo_provider configureProvider_def split_def Let_def)
    then show ?thesis by (simp add: configureOIDC_calls)
  qed
  show ?thesis unfolding m c by (simp add: oidcMsgs_def)
qed

theorem parseProviderInfo_OIDC_witness:
  "providers_New example_env (Provider (example_options\<lparr>Provider := ''oidc'',
       SkipOIDCDiscovery := True, OIDCIssuerURL := ''https://issuer.example'',
       OIDCJwksURL := ''https://issuer.example/keys''\<rparr>)) = OIDCProvider
   \<and> snd (snd (parseProviderInfo example_env (example_options\<lparr>Provider := ''oidc'',
       SkipOIDCDiscovery := True, OIDCIssuerURL := ''https://issuer.example'',
       OIDCJwksURL := ''https://issuer.example/keys''\<rparr>) example_world [])) =
       [''missing setting: login-url'', ''missing setting: redeem-url'']
   \<and> map_option calls (provider (fst (parseProviderInfo example_env (example_options\<lparr>
       Provider := ''oidc'', SkipOIDCDiscovery := True,
       OIDCIssuerURL := ''https://issuer.example'',
       OIDCJwksURL := ''https://issuer.example/keys''\<rparr>) example_world []))) =
       Some [SetVerifier ''https://issuer.example'' ''https://issuer.example/keys'']"
proof -
  let ?A = "example_options\<lparr>Provider := ''oidc'', SkipOIDCDiscovery := True,
       OIDCIssuerURL := ''https://issuer.example'',
       OIDCJwksURL := ''https://issuer.example/keys''\<rparr>"
  have h: "providers_New example_env (Provider ?A) = OIDCProvider"
    by code_simp
  have u: "providerURLMsgs example_env ?A = []"
    by code_simp
  have f: "LoginURL example_options = ''''" "RedeemURL example_options = ''''"
    by (simp_all add: example_options_def NewOptions_def)
  show ?thesis
    using parseProviderInfo_OIDC [OF h, of example_world "[]"] h u f by simp
qed

theorem parseProviderInfo_OIDC_issuer_counterexample:
  "providers_New example_env (Provider (example_options\<lparr>Provider := ''oidc'',
       SkipOIDCDiscovery := True\<rparr>)) = OIDCProvider
   \<and> SkipOIDCDiscovery (example_options\<lparr>Provider := ''oidc'', SkipOIDCDiscovery := True\<rparr>)
   \<and> snd (snd (parseProviderInfo example_env (example_options\<lparr>Provider := ''oidc'',
       SkipOIDCDiscovery := True\<rparr>) example_world [])) =
       [''missing-setting: oidc-issuer-url'', ''missing setting: login-url'',
        ''missing setting: redeem-url'', ''missing setting: oidc-jwks-url'']"
  by code_simp

text \<open>
  C6. For the Google provider, if any of the group list, the admin email and the path of
  the service-account credentials is set, each of the three that is missing is reported
  with its own message. With only the group list set, the provider check contributes
  exactly two messages, for the admin email and for the credentials path, and no file
  is opened.
\<close>

theorem parseProviderInfo_Google:
  assumes "providers_New env (Provider opts) = GoogleProvider"
  shows "snd (snd (parseProviderInfo env opts w msgs)) =
       msgs @ providerURLMsgs env opts
       @ (if GoogleGroups opts \<noteq> [] \<or> GoogleAdminEmail opts \<noteq> ''''
             \<or> GoogleServiceAccountJSON opts \<noteq> ''''
          then (if GoogleGroups opts = [] then [''missing setting: google-group''] else [])
               @ (if GoogleAdminEmail opts = ''''
                  then [''missing setting: google-admin-email''] else [])
               @ (if GoogleServiceAccountJSON opts = ''''
                  then [''missing setting: google-service-account-json''] else [])
          else [])
       @ (if GoogleServiceAccountJSON opts \<noteq> ''''
             \<and> isl (os_Open env (GoogleServiceAccountJSON opts))
          then [''invalid Google credentials file: '' @ GoogleServiceAccountJSON opts]
          else [])
   \<and> opened (fst (snd (parseProviderInfo env opts w msgs))) =
       opened w @ (if GoogleServiceAccountJSON opts = '''' then []
                   else [GoogleServiceAccountJSON opts])
   \<and> (GoogleGroups opts \<noteq> [] \<and> GoogleAdminEmail opts = ''''
        \<and> GoogleServiceAccountJSON opts = '''' \<longrightarrow>
        snd (snd (parseProviderInfo env opts w msgs)) =
          msgs @ providerURLMsgs env opts
          @ [''missing setting: google-admin-email'',
             ''missing setting: google-service-account-json'']
        \<and> fst (snd (parseProviderInfo env opts w msgs)) = w)"
proof -
  have m: "snd (snd (parseProviderInfo env opts w msgs)) =
      msgs @ providerURLMsgs env opts @ googleMsgs env opts"
    using assms by (simp add: parseProviderInfo_msgs variantMsgs_def)
  have o: "opened (fst (snd (parseProviderInfo env opts w msgs))) =
       opened w @ (if GoogleServiceAccountJSON opts = '''' then []
                   else [GoogleServiceAccountJSON opts])"
    using assms
    by (simp add: parseProviderInfo_world configureProvider_def Let_def configureGoogle_opened)
  have w: "GoogleServiceAccountJSON opts = '''' \<longrightarrow>
      fst (snd (parseProviderInfo env opts w msgs)) = w"
    using assms
    by (simp add: parseProviderInfo_world configureProvider_def Let_def configureGoogle_world)
  show ?thesis unfolding m o using w by (simp add: googleMsgs_def)
qed

theorem parseProviderInfo_Google_witness:
  "providers_New example_env (Provider (example_options\<lparr>Provider := ''google'',
       GoogleGroups := [''admins@example.com'']\<rparr>)) = GoogleProvider
   \<and> snd (snd (parseProviderInfo example_env (example_options\<lparr>Provider := ''google'',
       GoogleGroups := [''admins@example.com'']\<rparr>) example_world [])) =
       [''missing setting: google-admin-email'',
        ''missing setting: google-service-account-json'']
   \<and> fst (snd (parseProviderInfo example_env (example_options\<lparr>Provider := ''google'',
       GoogleGroups := [''admins@example.com'']\<rparr>) example_world [])) = example_world"
proof -
  let ?A = "example_options\<lparr>Provider := ''google'', GoogleGroups := [''admins@example.com'']\<rparr>"
  have h: "providers_New example_env (Provider ?A) = GoogleProvider"
    by code_simp
  have u: "providerURLMsgs example_env ?A = []"
    by code_simp
  have f: "GoogleAdminEmail example_options = ''''" "GoogleServiceAccountJSON example_options = ''''"
    by (simp_all add: example_options_def NewOptions_def)
  show ?thesis
    using parseProviderInfo_Google [OF h, of example_world "[]"] h u f by simp
qed

section \<open>The upstreams\<close>

lemma collect_proxyURLs:
  "proxyURLs (fst (snd (collect env opts w))) =
     fst (parseUpstreams env (Upstreams opts) (proxyURLs opts)
            (snd (parseURL env (RedirectURL opts) ''redirect''
               (requiredSettings opts (snd (insecureTLS env opts w []))))))"
proof -
  define t where "t = insecureTLS env opts w []"
  define r where "r = parseURL env (RedirectURL opts) ''redirect'' (requiredSettings opts (snd t))"
  define u where "u = parseUpstreams env (Upstreams opts) (proxyURLs opts) (snd r)"
  define c where "c = compileRegexes env (SkipAuthRegex opts) (CompiledRegex opts) (snd u)"
  define o3 where "o3 = opts\<lparr>redirectURL := fst r, proxyURLs := fst u, CompiledRegex := fst c\<rparr>"
  define p where "p = parseProviderInfo env o3 (fst t) (snd c)"
  define m where "m = cookieSameSite (fst p) (cookieRefresh env (fst p)
                   (cookieSecretSize env (fst p) (snd (snd p))))"
  define s where "s = parseSignatureKey env (fst p) m"
  have run: "fst (snd (collect env opts w)) = fst s"
    by (simp add: collect_unfold Let_def t_def r_def u_def c_def o3_def p_def m_def s_def)
  have o4: "fst p = opts\<lparr>redirectURL := fst r, proxyURLs := fst u, CompiledRegex := fst c,
      provider := provider (fst p)\<rparr>"
    using parseProviderInfo_opts [of env o3 "fst t" "snd c"] by (simp add: p_def o3_def)
  have o5: "fst s = opts\<lparr>redirectURL := fst r, proxyURLs := fst u, CompiledRegex := fst c,
      provider := provider (fst p), signatureData := signatureData (fst s)\<rparr>"
    using parseSignatureKey_opts [of env "fst p" m] o4 by (simp add: s_def)
  have "proxyURLs (fst s) = fst u" by (subst o5) simp
  with run show ?thesis by (simp add: u_def r_def t_def)
qed

lemma collect_proxyURLs_eq:
  "proxyURLs (fst (snd (collect env opts w))) =
     proxyURLs opts
     @ concat (map (\<lambda>u. case url_Parse env u of
                          Inl err \<Rightarrow> []
                        | Inr p \<Rightarrow> [if Path p = '''' then p\<lparr>Path := ''/''\<rparr> else p])
                 (Upstreams opts))"
  by (simp add: collect_proxyURLs parseUpstreams_eq)

lemma upstreamMsgs_eq:
  "upstreamMsgs env opts =
     concat (map (\<lambda>u. case url_Parse env u of
                        Inl err \<Rightarrow> [''error parsing upstream: '' @ err]
                      | Inr p \<Rightarrow> [])
               (Upstreams opts))"
  by (simp add: upstreamMsgs_def parseUpstreams_eq)


text \<open>
  C7 (amended). Every upstream that \<open>url.Parse\<close> rejects is reported with its own
  message and left out; every upstream that it accepts is added to the parsed list, in
  the order of the input, with an empty path set to \<open>/\<close>; the messages are part of what
  \<open>Validate\<close> collects. For the list \<open>["http://a:8080", "not a url"]\<close> and Go's
  \<open>url.Parse\<close>, both targets are accepted, the first with the path \<open>/\<close> and the second
  with the path \<open>not a url\<close>, and there is no message.
\<close>

theorem Validate_upstreams:
  "proxyURLs (fst (snd (collect env opts w))) =
     proxyURLs opts
     @ concat (map (\<lambda>u. case url_Parse env u of
                          Inl err \<Rightarrow> []
                        | Inr p \<Rightarrow> [if Path p = '''' then p\<lparr>Path := ''/''\<rparr> else p])
                 (Upstreams opts))
   \<and> upstreamMsgs env opts =
     concat (map (\<lambda>u. case url_Parse env u of
                        Inl err \<Rightarrow> [''error parsing upstream: '' @ err]
                      | Inr p \<Rightarrow> [])
               (Upstreams opts))
   \<and> (\<exists>before after. fst (collect env opts w) = before @ upstreamMsgs env opts @ after)
   \<and> (url_Parse env ''http://a:8080'' = example_url_Parse ''http://a:8080''
        \<and> url_Parse env ''not a url'' = example_url_Parse ''not a url''
        \<and> Upstreams opts = [''http://a:8080'', ''not a url''] \<and> proxyURLs opts = [] \<longrightarrow>
        map Path (proxyURLs (fst (snd (collect env opts w)))) = [''/'', ''not a url'']
        \<and> upstreamMsgs env opts = [])"
proof -
  have pa: "example_url_Parse ''http://a:8080'' =
      Inr (new_URL\<lparr>Scheme := ''http'', Host := ''a:8080''\<rparr>)"
    by code_simp
  have pb: "example_url_Parse ''not a url'' =
      Inr (new_URL\<lparr>Path := ''not a url'', RawPath := ''not a url''\<rparr>)"
    by code_simp
  have "\<exists>before after. fst (collect env opts w) = before @ upstreamMsgs env opts @ after"
    unfolding collect_msgs report_def
    by (rule exI [of _ "snd (insecureTLS env opts \<lparr>insecure_tls = False, opened = []\<rparr> [])
         @ requiredSettings opts [] @ urlMsgs env (RedirectURL opts) ''redirect''"],
        rule exI [of _ "regexMsgs env opts @ providerMsgs env opts
         @ cookieSecretSize env opts [] @ cookieRefresh env opts []
         @ cookieSameSite opts [] @ snd (parseSignatureKey env opts [])
         @ validateCookieName env opts [] @ realClientIPHeader env opts []"]) simp
  then show ?thesis
    by (simp add: collect_proxyURLs_eq upstreamMsgs_eq pa pb new_URL_def)
qed

theorem Validate_upstreams_witness:
  "map Path (proxyURLs (fst (snd (collect example_env
       (example_options\<lparr>Upstreams := [''http://a:8080'', ''not a url'']\<rparr>) example_world))))
     = [''/'', ''not a url'']
   \<and> upstreamMsgs example_env
       (example_options\<lparr>Upstreams := [''http://a:8080'', ''not a url'']\<rparr>) = []
   \<and> map Path (proxyURLs (fst (snd (collect example_env
       (example_options\<lparr>Upstreams := [''http://a:8080'', '':not a url'']\<rparr>) example_world))))
     = [''/'']
   \<and> upstreamMsgs example_env
       (example_options\<lparr>Upstreams := [''http://a:8080'', '':not a url'']\<rparr>) =
       [''error parsing upstream: parse :not a url: missing protocol scheme'']"
proof -
  let ?A = "example_options\<lparr>Upstreams := [''http://a:8080'', ''not a url'']\<rparr>"
  let ?B = "example_options\<lparr>Upstreams := [''http://a:8080'', '':not a url'']\<rparr>"
  have e: "url_Parse example_env = example_url_Parse"
    by (simp add: example_env_def)
  have p: "proxyURLs example_options = []"
    by (simp add: example_options_def NewOptions_def)
  have pa: "example_url_Parse ''http://a:8080'' =
      Inr (new_URL\<lparr>Scheme := ''http'', Host := ''a:8080''\<rparr>)"
    by code_simp
  have pb: "example_url_Parse ''not a url'' =
      Inr (new_URL\<lparr>Path := ''not a url'', RawPath := ''not a url''\<rparr>)"
    by code_simp
  have pc: "example_url_Parse '':not a url'' =
      Inl ''parse :not a url: missing protocol scheme''"
    by code_simp
  show ?thesis
    using Validate_upstreams [of example_env ?A example_world]
      Validate_upstreams [of example_env ?B example_world] e p pa pb pc
    by (simp add: new_URL_def)
qed

theorem Validate_upstreams_not_a_url_counterexample:
  "upstreamMsgs example_env
       (example_options\<lparr>Upstreams := [''http://a:8080'', ''not a url'']\<rparr>) = []
   \<and> length (proxyURLs (fst (snd (collect example_env
       (example_options\<lparr>Upstreams := [''http://a:8080'', ''not a url'']\<rparr>) example_world))))
     = 2"
proof -
  let ?A = "example_options\<lparr>Upstreams := [''http://a:8080'', ''not a url'']\<rparr>"
  have e: "url_Parse example_env = example_url_Parse"
    by (simp add: example_env_def)
  have p: "proxyURLs example_options = []"
    by (simp add: example_options_def NewOptions_def)
  have pa: "example_url_Parse ''http://a:8080'' =
      Inr (new_URL\<lparr>Scheme := ''http'', Host := ''a:8080''\<rparr>)"
    by code_simp
  have pb: "example_url_Parse ''not a url'' =
      Inr (new_URL\<lparr>Path := ''not a url'', RawPath := ''not a url''\<rparr>)"
    by code_simp
  show ?thesis
    by (simp add: collect_proxyURLs_eq upstreamMsgs_eq e p pa pb)
qed

end
